theory Spec2Isabelle
  imports Complex_Main "HOL-Library.Word"
begin

section \<open>LedEngine: data model\<close>

text \<open>
  The engine of \<^verbatim>\<open>LedEngine.h\<close> / \<^verbatim>\<open>LedEngine.cpp\<close>. Conventions of the embedding:
  \<^item> \<^verbatim>\<open>float\<close> and \<^verbatim>\<open>double\<close> values are exact reals, and overflow is not modelled. Where
    a property is about the quantisation or about the limit to full power, the rounding is
    a parameter (\<open>fl\<close> rounds to \<^verbatim>\<open>float\<close>, \<open>db\<close> to \<^verbatim>\<open>double\<close>, in \<open>setRaw_rounded\<close> and
    \<open>setCie1976Ucs_rounded\<close>), and the operation with exact arithmetic is the instance at
    the identity;
  \<^item> what C++ leaves undefined is a \<open>fault\<close>: a division by zero, and a NaN (the
    square root of a negative number), which would reach \<^verbatim>\<open>static_cast<int>\<close> in
    \<^verbatim>\<open>setRaw\<close>; every mutating operation returns \<open>fault + LedEngine\<close>, \<open>Inl\<close> being the
    fault, and a theorem on a state it returns is about the runs without a fault. What
    \<^verbatim>\<open>setRaw\<close> does with a NaN it is handed is modelled apart, in \<open>setRaw_float\<close>, and so
    is the way of a NaN from the solver to \<^verbatim>\<open>setRaw\<close>, in \<open>setCie1976Ucs_float\<close>;
  \<^item> \<^verbatim>\<open>int\<close> has 32 bits, as on the ESP8266 that \<^verbatim>\<open>analogWriteRange\<close> belongs to;
  \<^item> \<^verbatim>\<open>uint8_t\<close> and \<^verbatim>\<open>uint16_t\<close> are \<open>8 word\<close> and \<open>16 word\<close>;
  \<^item> a \<^verbatim>\<open>float[3]\<close> is a triple, read with \<open>at0\<close>, \<open>at1\<close>, \<open>at2\<close>;
  \<^item> the calls made to the Arduino core (\<^verbatim>\<open>analogWriteRange\<close>, \<^verbatim>\<open>pinMode\<close>,
    \<^verbatim>\<open>analogWrite\<close>) are appended, in order, to the list \<open>sink\<close>;
  \<^item> an identifier cannot end in an underscore here, so the private member \<^verbatim>\<open>raw_\<close> is
    the field \<open>raw_m\<close>, and likewise for every other member and for
    \<^verbatim>\<open>findCoefficient_\<close>.
\<close>

record Luv =
  L :: real
  u :: real
  v :: real

record RGB =
  R :: real
  G :: real
  B :: real

type_synonym float3 = "real \<times> real \<times> real"

definition at0 :: "float3 \<Rightarrow> real" where
  "at0 a = fst a"

definition at1 :: "float3 \<Rightarrow> real" where
  "at1 a = fst (snd a)"

definition at2 :: "float3 \<Rightarrow> real" where
  "at2 a = snd (snd a)"

datatype fault = DivisionByZero | NotANumber

datatype pwm_call =
  AnalogWriteRange "16 word"
  | PinModeOutput "8 word"
  | AnalogWrite "8 word" int

record LedEngine =
  redPin_m :: "8 word"
  greenPin_m :: "8 word"
  bluePin_m :: "8 word"
  warmPin_m :: "8 word"
  coldPin_m :: "8 word"
  pwmRange_m :: "16 word"
  onOff_m :: bool
  raw_m :: RGB
  luv_m :: Luv
  T_m :: "16 word"
  redUv_m :: Luv
  greenUv_m :: Luv
  blueUv_m :: Luv
  redLum_m :: real
  greenLum_m :: real
  blueLum_m :: real
  maxLum_m :: real
  redToGreenFit_m :: float3
  greenToBlueFit_m :: float3
  blueToRedFit_m :: float3
  sink :: "pwm_call list"

section \<open>Raw projector and power state\<close>

text \<open>The promotion of a \<^verbatim>\<open>uint16_t\<close> to \<^verbatim>\<open>float\<close> or \<^verbatim>\<open>double\<close>: exact.\<close>

definition u16_to_real :: "16 word \<Rightarrow> real" where
  "u16_to_real w = real (unat w)"

definition getOnOff :: "LedEngine \<Rightarrow> bool" where
  "getOnOff s = onOff_m s"

definition getRaw :: "LedEngine \<Rightarrow> RGB" where
  "getRaw s = raw_m s"

text \<open>Lines 54 to 59: the two tests applied to one component, in the source's order.\<close>

definition limit01 :: "real \<Rightarrow> real" where
  "limit01 x = (let y = (if x < 0 then 0.0 else x) in if y > 1 then 1.0 else y)"

text \<open>
  \<^verbatim>\<open>static_cast<int>\<close> truncates towards zero. Its argument in \<open>setRaw\<close> lies between
  0.5 and 65535.5, inside the range of a 32-bit \<^verbatim>\<open>int\<close>.
\<close>

definition static_cast_int :: "real \<Rightarrow> int" where
  "static_cast_int x = (if 0 \<le> x then \<lfloor>x\<rfloor> else \<lceil>x\<rceil>)"

text \<open>
  \<^verbatim>\<open>setRaw\<close> (lines 47 to 84). The rounding of \<^verbatim>\<open>float\<close> arithmetic is a parameter,
  \<open>fl\<close>: it is applied to the products of lines 62 to 64 and to the quotients of lines 74
  to 76. (The addition of \<^verbatim>\<open>0.5\<close> is done in \<^verbatim>\<open>double\<close> on a \<^verbatim>\<open>float\<close> between 0 and
  65535, and is taken as exact.) \<open>setRaw\<close>, used by every other operation, is the
  instance with exact arithmetic: where a product lies within the rounding of a half
  integer, its duty cycle and the machine's can differ by one. \<open>float_rounding\<close> states what
  the theorems on the quantisation ask of a rounding: it is monotone, it keeps the integers
  up to \<open>2^24\<close>, and its relative error on the normal range of binary32 is at most
  \<open>2^-24\<close>.
\<close>

definition setRaw_rounded ::
    "(real \<Rightarrow> real) \<Rightarrow> LedEngine \<Rightarrow> RGB \<Rightarrow> fault + LedEngine" where
  "setRaw_rounded fl s raw =
    (let r1 = limit01 (R raw);
         g1 = limit01 (G raw);
         b1 = limit01 (B raw);
         pwmR = static_cast_int (fl (r1 * u16_to_real (pwmRange_m s)) + 0.5);
         pwmG = static_cast_int (fl (g1 * u16_to_real (pwmRange_m s)) + 0.5);
         pwmB = static_cast_int (fl (b1 * u16_to_real (pwmRange_m s)) + 0.5);
         s1 = (if onOff_m s
               then s\<lparr>sink := sink s @ [AnalogWrite (redPin_m s) pwmR,
                                         AnalogWrite (greenPin_m s) pwmG,
                                         AnalogWrite (bluePin_m s) pwmB]\<rparr>
               else s)
     in if u16_to_real (pwmRange_m s) = 0 then Inl DivisionByZero
        else Inr (s1\<lparr>raw_m := \<lparr>R = fl (real_of_int pwmR / u16_to_real (pwmRange_m s)),
                                  G = fl (real_of_int pwmG / u16_to_real (pwmRange_m s)),
                                  B = fl (real_of_int pwmB / u16_to_real (pwmRange_m s))\<rparr>,
                       luv_m := \<lparr>L = - 1.0, u = - 1.0, v = - 1.0\<rparr>,
                       T_m := - 1\<rparr>))"

definition setRaw :: "LedEngine \<Rightarrow> RGB \<Rightarrow> fault + LedEngine" where
  "setRaw s raw = setRaw_rounded (\<lambda>x. x) s raw"

definition float_rounding :: "(real \<Rightarrow> real) \<Rightarrow> bool" where
  "float_rounding fl \<longleftrightarrow>
    (\<forall>x y. x \<le> y \<longrightarrow> fl x \<le> fl y) \<and>
    (\<forall>n::int. \<bar>n\<bar> \<le> 2 ^ 24 \<longrightarrow> fl (real_of_int n) = real_of_int n) \<and>
    (\<forall>x. 1 / 2 ^ 126 \<le> \<bar>x\<bar> \<and> \<bar>x\<bar> \<le> 2 ^ 127 \<longrightarrow> \<bar>fl x - x\<bar> \<le> \<bar>x\<bar> / 2 ^ 24)"

text \<open>\<^verbatim>\<open>setOnOff\<close> (lines 31 to 41), over the same rounding, and with exact arithmetic.\<close>

definition setOnOff_rounded ::
    "(real \<Rightarrow> real) \<Rightarrow> LedEngine \<Rightarrow> bool \<Rightarrow> fault + LedEngine" where
  "setOnOff_rounded fl s onOff =
    (let s1 = s\<lparr>onOff_m := onOff\<rparr>
     in if onOff_m s1 then setRaw_rounded fl s1 (getRaw s1)
        else Inr (s1\<lparr>sink := sink s1 @ [AnalogWrite (redPin_m s1) 0,
                                          AnalogWrite (greenPin_m s1) 0,
                                          AnalogWrite (bluePin_m s1) 0]\<rparr>))"

definition setOnOff :: "LedEngine \<Rightarrow> bool \<Rightarrow> fault + LedEngine" where
  "setOnOff s onOff = setOnOff_rounded (\<lambda>x. x) s onOff"

definition getCie1976Ucs :: "LedEngine \<Rightarrow> Luv" where
  "getCie1976Ucs s = luv_m s"

definition getColorTemperature :: "LedEngine \<Rightarrow> 16 word" where
  "getColorTemperature s = T_m s"

text \<open>The duty cycle \<open>setRaw\<close> computes for one requested component (lines 62 to 64).\<close>

definition duty_rounded :: "(real \<Rightarrow> real) \<Rightarrow> LedEngine \<Rightarrow> real \<Rightarrow> int" where
  "duty_rounded fl s x =
    static_cast_int (fl (limit01 x * u16_to_real (pwmRange_m s)) + 0.5)"

definition duty :: "LedEngine \<Rightarrow> real \<Rightarrow> int" where
  "duty s x = duty_rounded (\<lambda>x. x) s x"

text \<open>
  A \<^verbatim>\<open>float\<close> as \<^verbatim>\<open>setRaw\<close> can be handed it: a number, an infinity or a NaN. Every
  comparison with a NaN is false: \<open>float_less\<close> and \<open>float_greater\<close> are the two tests of
  lines 54 to 59, \<open>limit01_float\<close> applies them to one component in the source's order.
\<close>

datatype float_value = Finite real | PlusInfinity | MinusInfinity | NaN

record RGB_float =
  Rf :: float_value
  Gf :: float_value
  Bf :: float_value

definition float_less :: "float_value \<Rightarrow> real \<Rightarrow> bool" where
  "float_less x c =
    (case x of Finite r \<Rightarrow> r < c | PlusInfinity \<Rightarrow> False | MinusInfinity \<Rightarrow> True
     | NaN \<Rightarrow> False)"

definition float_greater :: "float_value \<Rightarrow> real \<Rightarrow> bool" where
  "float_greater x c =
    (case x of Finite r \<Rightarrow> r > c | PlusInfinity \<Rightarrow> True | MinusInfinity \<Rightarrow> False
     | NaN \<Rightarrow> False)"

definition limit01_float :: "float_value \<Rightarrow> float_value" where
  "limit01_float x =
    (let y = (if float_less x 0 then Finite 0.0 else x)
     in if float_greater y 1 then Finite 1.0 else y)"

text \<open>
  The argument of the conversion in lines 62 to 64, \<^verbatim>\<open>raw_.R * pwmRange_ + 0.5\<close>, for the
  PWM range \<open>n\<close>: of a NaN it is a NaN, of an infinity that infinity, or a NaN when the range
  is zero.
\<close>

definition times_plus_half :: "(real \<Rightarrow> real) \<Rightarrow> float_value \<Rightarrow> real \<Rightarrow> float_value" where
  "times_plus_half fl x n =
    (case x of
       Finite r \<Rightarrow> Finite (fl (r * n) + 0.5)
     | PlusInfinity \<Rightarrow> (if n = 0 then NaN else PlusInfinity)
     | MinusInfinity \<Rightarrow> (if n = 0 then NaN else MinusInfinity)
     | NaN \<Rightarrow> NaN)"

text \<open>
  \<^verbatim>\<open>static_cast<int>\<close> of a NaN or of an infinity is undefined in C++, and the conversion
  of the target yields some \<^verbatim>\<open>int\<close> all the same: the parameter \<open>invalid\<close> says which.
\<close>

definition static_cast_int_float :: "(float_value \<Rightarrow> int) \<Rightarrow> float_value \<Rightarrow> int" where
  "static_cast_int_float invalid x =
    (case x of Finite r \<Rightarrow> static_cast_int r | _ \<Rightarrow> invalid x)"

text \<open>
  \<^verbatim>\<open>setRaw\<close> (lines 47 to 84) on such an argument, with the rounding \<open>fl\<close> of
  \<open>setRaw_rounded\<close>. The conversion of the duty cycle to \<^verbatim>\<open>float\<close> in lines 74 to 76 is
  rounded here, since the integer that comes out of a NaN need not be one that a \<^verbatim>\<open>float\<close>
  holds. The engine holds real numbers, so the division by a PWM range of zero stays a
  fault. \<open>duty_float\<close> is the duty cycle computed for one component.
\<close>

definition setRaw_float ::
    "(float_value \<Rightarrow> int) \<Rightarrow> (real \<Rightarrow> real) \<Rightarrow> LedEngine \<Rightarrow> RGB_float
      \<Rightarrow> fault + LedEngine" where
  "setRaw_float invalid fl s raw =
    (let r1 = limit01_float (Rf raw);
         g1 = limit01_float (Gf raw);
         b1 = limit01_float (Bf raw);
         pwmR = static_cast_int_float invalid
                  (times_plus_half fl r1 (u16_to_real (pwmRange_m s)));
         pwmG = static_cast_int_float invalid
                  (times_plus_half fl g1 (u16_to_real (pwmRange_m s)));
         pwmB = static_cast_int_float invalid
                  (times_plus_half fl b1 (u16_to_real (pwmRange_m s)));
         s1 = (if onOff_m s
               then s\<lparr>sink := sink s @ [AnalogWrite (redPin_m s) pwmR,
                                         AnalogWrite (greenPin_m s) pwmG,
                                         AnalogWrite (bluePin_m s) pwmB]\<rparr>
               else s)
     in if u16_to_real (pwmRange_m s) = 0 then Inl DivisionByZero
        else Inr (s1\<lparr>raw_m := \<lparr>R = fl (fl (real_of_int pwmR) / u16_to_real (pwmRange_m s)),
                                  G = fl (fl (real_of_int pwmG) / u16_to_real (pwmRange_m s)),
                                  B = fl (fl (real_of_int pwmB) / u16_to_real (pwmRange_m s))\<rparr>,
                       luv_m := \<lparr>L = - 1.0, u = - 1.0, v = - 1.0\<rparr>,
                       T_m := - 1\<rparr>))"

definition duty_float ::
    "(float_value \<Rightarrow> int) \<Rightarrow> (real \<Rightarrow> real) \<Rightarrow> LedEngine \<Rightarrow> float_value \<Rightarrow> int" where
  "duty_float invalid fl s x =
    static_cast_int_float invalid
      (times_plus_half fl (limit01_float x) (u16_to_real (pwmRange_m s)))"

section \<open>Chromaticity solver\<close>

text \<open>
  \<^verbatim>\<open>findCoefficient_\<close> (lines 219 to 253). The two closed forms of \<^verbatim>\<open>dR\<close> are each one
  expression of several thousand characters; they are given here in three parts, with the
  source's text unchanged: the argument of \<^verbatim>\<open>sqrt\<close>, the numerator (where \<open>sq\<close> stands
  for the value of the square root) and the denominator. \<open>dR_neg\<close> is the branch
  \<^verbatim>\<open>Lp1 < 0\<close> (line 238), \<open>dR_pos\<close> the other one (line 241).

  The arithmetic is exact here and in \<^verbatim>\<open>double\<close> in the source. Where the exact argument
  of \<^verbatim>\<open>sqrt\<close> is zero, the sign of the computed one is decided by rounding, and the source
  may hold a NaN where these definitions have a number: with the default fits this is so
  when the target is the primary \<open>P0\<close> itself (\<open>radicand_zero_at_primary\<close> below). The
  solver is evaluated below only away from such points: on the default calibration at the
  two targets of \<open>solver_margins\<close>, and with one other fit where the argument of \<^verbatim>\<open>sqrt\<close>
  is negative (\<open>skewed_margin\<close>). The property of the limit to full power takes what the
  machine computes as a parameter instead.
\<close>

definition dR_neg_radicand ::
    "real \<Rightarrow> real \<Rightarrow> real \<Rightarrow> real \<Rightarrow> real \<Rightarrow> real
      \<Rightarrow> real \<Rightarrow> real \<Rightarrow> real \<Rightarrow> real \<Rightarrow> real \<Rightarrow> real" where
  "dR_neg_radicand PTu PTv P0u P0v P1u P1v P2u P2v Lp1 Lp2 Lq1 =
    (P0u*P0u)*(P1v*P1v) + (P1u*P1u)*(P0v*P0v) + (P0u*P0u)*(PTv*PTv) + (P0v*P0v)*(PTu*PTu) +
    (P1u*P1u)*(PTv*PTv) + (P1v*P1v)*(PTu*PTu) - Lp1*(P0u*P0u)*(P1v*P1v)*2.0 -
    Lp1*(P1u*P1u)*(P0v*P0v)*2.0 - Lp2*(P0u*P0u)*(P1v*P1v)*2.0 - Lp2*(P1u*P1u)*(P0v*P0v)*2.0 +
    Lq1*(P0u*P0u)*(P1v*P1v)*2.0 + Lq1*(P1u*P1u)*(P0v*P0v)*2.0 - Lp1*(P0u*P0u)*(PTv*PTv)*2.0 -
    Lp1*(P0v*P0v)*(PTu*PTu)*2.0 - Lp2*(P0u*P0u)*(PTv*PTv)*4.0 - Lp2*(P0v*P0v)*(PTu*PTu)*4.0 +
    Lq1*(P0u*P0u)*(PTv*PTv)*2.0 + Lq1*(P0v*P0v)*(PTu*PTu)*2.0 + Lq1*(P1u*P1u)*(PTv*PTv)*2.0 +
    Lq1*(P1v*P1v)*(PTu*PTu)*2.0 + (Lp1*Lp1)*(P0u*P0u)*(P1v*P1v) +
    (Lp1*Lp1)*(P1u*P1u)*(P0v*P0v) + (Lp2*Lp2)*(P0u*P0u)*(P1v*P1v) +
    (Lp2*Lp2)*(P1u*P1u)*(P0v*P0v) + (Lp1*Lp1)*(P1u*P1u)*(P2v*P2v) +
    (Lp1*Lp1)*(P2u*P2u)*(P1v*P1v) + (Lp2*Lp2)*(P0u*P0u)*(P2v*P2v) +
    (Lp2*Lp2)*(P2u*P2u)*(P0v*P0v) + (Lp2*Lp2)*(P1u*P1u)*(P2v*P2v) +
    (Lp2*Lp2)*(P2u*P2u)*(P1v*P1v) + (Lq1*Lq1)*(P0u*P0u)*(P1v*P1v) +
    (Lq1*Lq1)*(P1u*P1u)*(P0v*P0v) + (Lp1*Lp1)*(P0u*P0u)*(PTv*PTv) +
    (Lp1*Lp1)*(P0v*P0v)*(PTu*PTu) + (Lp1*Lp1)*(P2u*P2u)*(PTv*PTv) +
    (Lp1*Lp1)*(P2v*P2v)*(PTu*PTu) + (Lq1*Lq1)*(P0u*P0u)*(PTv*PTv) +
    (Lq1*Lq1)*(P0v*P0v)*(PTu*PTu) + (Lq1*Lq1)*(P1u*P1u)*(PTv*PTv) +
    (Lq1*Lq1)*(P1v*P1v)*(PTu*PTu) - P0u*P1u*(PTv*PTv)*2.0 - P0u*(P1v*P1v)*PTu*2.0 -
    P1u*(P0v*P0v)*PTu*2.0 - P0v*P1v*(PTu*PTu)*2.0 - (P0u*P0u)*P1v*PTv*2.0 -
    (P1u*P1u)*P0v*PTv*2.0 + Lp1*Lp2*(P0u*P0u)*(P1v*P1v)*2.0 + Lp1*Lp2*(P1u*P1u)*(P0v*P0v)*2.0 +
    Lp1*Lp2*(P1u*P1u)*(P2v*P2v)*2.0 + Lp1*Lp2*(P2u*P2u)*(P1v*P1v)*2.0 -
    Lp1*Lq1*(P0u*P0u)*(P1v*P1v)*2.0 - Lp1*Lq1*(P1u*P1u)*(P0v*P0v)*2.0 -
    Lp2*Lq1*(P0u*P0u)*(P1v*P1v)*2.0 - Lp2*Lq1*(P1u*P1u)*(P0v*P0v)*2.0 +
    Lp1*Lq1*(P0u*P0u)*(PTv*PTv)*2.0 + Lp1*Lq1*(P0v*P0v)*(PTu*PTu)*2.0 -
    (Lp1*Lp1)*P0u*P2u*(P1v*P1v)*2.0 - (Lp2*Lp2)*P0u*P1u*(P2v*P2v)*2.0 -
    (Lp2*Lp2)*P0u*P2u*(P1v*P1v)*2.0 - (Lp2*Lp2)*P1u*P2u*(P0v*P0v)*2.0 -
    (Lp1*Lp1)*(P1u*P1u)*P0v*P2v*2.0 - (Lp2*Lp2)*(P0u*P0u)*P1v*P2v*2.0 -
    (Lp2*Lp2)*(P1u*P1u)*P0v*P2v*2.0 - (Lp2*Lp2)*(P2u*P2u)*P0v*P1v*2.0 -
    (Lp1*Lp1)*P1u*(P0v*P0v)*PTu*2.0 - (Lp1*Lp1)*P0u*P2u*(PTv*PTv)*2.0 -
    (Lp1*Lp1)*P1u*(P2v*P2v)*PTu*2.0 - (Lp1*Lp1)*(P0u*P0u)*P1v*PTv*2.0 -
    (Lp1*Lp1)*P0v*P2v*(PTu*PTu)*2.0 - (Lp1*Lp1)*(P2u*P2u)*P1v*PTv*2.0 -
    (Lq1*Lq1)*P0u*P1u*(PTv*PTv)*2.0 - (Lq1*Lq1)*P0u*(P1v*P1v)*PTu*2.0 -
    (Lq1*Lq1)*P1u*(P0v*P0v)*PTu*2.0 - (Lq1*Lq1)*P0v*P1v*(PTu*PTu)*2.0 -
    (Lq1*Lq1)*(P0u*P0u)*P1v*PTv*2.0 - (Lq1*Lq1)*(P1u*P1u)*P0v*PTv*2.0 - P0u*P1u*P0v*P1v*2.0 +
    P0u*P1u*P0v*PTv*2.0 + P0u*P0v*P1v*PTu*2.0 + P0u*P1u*P1v*PTv*2.0 + P1u*P0v*P1v*PTu*2.0 -
    P0u*P0v*PTu*PTv*2.0 + P0u*P1v*PTu*PTv*2.0 + P1u*P0v*PTu*PTv*2.0 - P1u*P1v*PTu*PTv*2.0 +
    Lp1*P0u*P2u*(P1v*P1v)*2.0 + Lp2*P0u*P2u*(P1v*P1v)*2.0 - Lp2*P1u*P2u*(P0v*P0v)*2.0 +
    Lp1*(P1u*P1u)*P0v*P2v*2.0 - Lp2*(P0u*P0u)*P1v*P2v*2.0 + Lp2*(P1u*P1u)*P0v*P2v*2.0 +
    Lp1*P0u*P1u*(PTv*PTv)*2.0 + Lp1*P0u*(P1v*P1v)*PTu*2.0 + Lp1*P1u*(P0v*P0v)*PTu*4.0 +
    Lp1*P0u*P2u*(PTv*PTv)*2.0 + Lp2*P0u*P1u*(PTv*PTv)*4.0 + Lp2*P0u*(P1v*P1v)*PTu*2.0 +
    Lp2*P1u*(P0v*P0v)*PTu*6.0 - Lp1*P1u*P2u*(PTv*PTv)*2.0 - Lp1*P2u*(P1v*P1v)*PTu*2.0 +
    Lp2*P0u*P2u*(PTv*PTv)*4.0 + Lp2*P2u*(P0v*P0v)*PTu*2.0 - Lp2*P1u*P2u*(PTv*PTv)*4.0 -
    Lp2*P2u*(P1v*P1v)*PTu*2.0 + Lp1*P0v*P1v*(PTu*PTu)*2.0 + Lp1*(P0u*P0u)*P1v*PTv*4.0 +
    Lp1*(P1u*P1u)*P0v*PTv*2.0 + Lp1*P0v*P2v*(PTu*PTu)*2.0 + Lp2*P0v*P1v*(PTu*PTu)*4.0 +
    Lp2*(P0u*P0u)*P1v*PTv*6.0 + Lp2*(P1u*P1u)*P0v*PTv*2.0 - Lp1*P1v*P2v*(PTu*PTu)*2.0 -
    Lp1*(P1u*P1u)*P2v*PTv*2.0 + Lp2*P0v*P2v*(PTu*PTu)*4.0 + Lp2*(P0u*P0u)*P2v*PTv*2.0 -
    Lp2*P1v*P2v*(PTu*PTu)*4.0 - Lp2*(P1u*P1u)*P2v*PTv*2.0 - Lq1*P0u*P1u*(PTv*PTv)*4.0 -
    Lq1*P0u*(P1v*P1v)*PTu*4.0 - Lq1*P1u*(P0v*P0v)*PTu*4.0 - Lq1*P0v*P1v*(PTu*PTu)*4.0 -
    Lq1*(P0u*P0u)*P1v*PTv*4.0 - Lq1*(P1u*P1u)*P0v*PTv*4.0 - Lp1*Lp2*P0u*P1u*(P2v*P2v)*2.0 -
    Lp1*Lp2*P0u*P2u*(P1v*P1v)*4.0 - Lp1*Lp2*P1u*P2u*(P0v*P0v)*2.0 -
    Lp1*Lp2*(P0u*P0u)*P1v*P2v*2.0 - Lp1*Lp2*(P1u*P1u)*P0v*P2v*4.0 -
    Lp1*Lp2*(P2u*P2u)*P0v*P1v*2.0 + Lp1*Lq1*P0u*P2u*(P1v*P1v)*2.0 +
    Lp1*Lq1*P1u*P2u*(P0v*P0v)*4.0 + Lp2*Lq1*P0u*P2u*(P1v*P1v)*2.0 +
    Lp2*Lq1*P1u*P2u*(P0v*P0v)*2.0 + Lp1*Lq1*(P0u*P0u)*P1v*P2v*4.0 +
    Lp1*Lq1*(P1u*P1u)*P0v*P2v*2.0 + Lp2*Lq1*(P0u*P0u)*P1v*P2v*2.0 +
    Lp2*Lq1*(P1u*P1u)*P0v*P2v*2.0 - Lp1*Lp2*P1u*(P0v*P0v)*PTu*2.0 +
    Lp1*Lp2*P0u*(P2v*P2v)*PTu*2.0 + Lp1*Lp2*P2u*(P0v*P0v)*PTu*2.0 -
    Lp1*Lp2*P1u*(P2v*P2v)*PTu*2.0 - Lp1*Lp2*(P0u*P0u)*P1v*PTv*2.0 +
    Lp1*Lp2*(P0u*P0u)*P2v*PTv*2.0 + Lp1*Lp2*(P2u*P2u)*P0v*PTv*2.0 -
    Lp1*Lp2*(P2u*P2u)*P1v*PTv*2.0 - Lp1*Lq1*P0u*P1u*(PTv*PTv)*2.0 +
    Lp1*Lq1*P0u*(P1v*P1v)*PTu*2.0 - Lp1*Lq1*P0u*P2u*(PTv*PTv)*2.0 -
    Lp1*Lq1*P2u*(P0v*P0v)*PTu*4.0 + Lp2*Lq1*P0u*(P1v*P1v)*PTu*2.0 +
    Lp2*Lq1*P1u*(P0v*P0v)*PTu*2.0 + Lp1*Lq1*P1u*P2u*(PTv*PTv)*2.0 -
    Lp1*Lq1*P2u*(P1v*P1v)*PTu*2.0 - Lp2*Lq1*P2u*(P0v*P0v)*PTu*2.0 -
    Lp2*Lq1*P2u*(P1v*P1v)*PTu*2.0 - Lp1*Lq1*P0v*P1v*(PTu*PTu)*2.0 +
    Lp1*Lq1*(P1u*P1u)*P0v*PTv*2.0 - Lp1*Lq1*P0v*P2v*(PTu*PTu)*2.0 -
    Lp1*Lq1*(P0u*P0u)*P2v*PTv*4.0 + Lp2*Lq1*(P0u*P0u)*P1v*PTv*2.0 +
    Lp2*Lq1*(P1u*P1u)*P0v*PTv*2.0 + Lp1*Lq1*P1v*P2v*(PTu*PTu)*2.0 -
    Lp1*Lq1*(P1u*P1u)*P2v*PTv*2.0 - Lp2*Lq1*(P0u*P0u)*P2v*PTv*2.0 -
    Lp2*Lq1*(P1u*P1u)*P2v*PTv*2.0 - (Lp1*Lp1)*P0u*P1u*P0v*P1v*2.0 -
    (Lp2*Lp2)*P0u*P1u*P0v*P1v*2.0 + (Lp1*Lp1)*P0u*P1u*P1v*P2v*2.0 +
    (Lp1*Lp1)*P1u*P2u*P0v*P1v*2.0 + (Lp2*Lp2)*P0u*P1u*P0v*P2v*2.0 +
    (Lp2*Lp2)*P0u*P2u*P0v*P1v*2.0 + (Lp2*Lp2)*P0u*P1u*P1v*P2v*2.0 -
    (Lp2*Lp2)*P0u*P2u*P0v*P2v*2.0 + (Lp2*Lp2)*P1u*P2u*P0v*P1v*2.0 -
    (Lp1*Lp1)*P1u*P2u*P1v*P2v*2.0 + (Lp2*Lp2)*P0u*P2u*P1v*P2v*2.0 +
    (Lp2*Lp2)*P1u*P2u*P0v*P2v*2.0 - (Lp2*Lp2)*P1u*P2u*P1v*P2v*2.0 -
    (Lq1*Lq1)*P0u*P1u*P0v*P1v*2.0 + (Lp1*Lp1)*P0u*P1u*P0v*PTv*2.0 +
    (Lp1*Lp1)*P0u*P0v*P1v*PTu*2.0 - (Lp1*Lp1)*P0u*P1u*P2v*PTv*2.0 +
    (Lp1*Lp1)*P0u*P2u*P1v*PTv*4.0 - (Lp1*Lp1)*P0u*P1v*P2v*PTu*2.0 -
    (Lp1*Lp1)*P1u*P2u*P0v*PTv*2.0 + (Lp1*Lp1)*P1u*P0v*P2v*PTu*4.0 -
    (Lp1*Lp1)*P2u*P0v*P1v*PTu*2.0 + (Lp1*Lp1)*P1u*P2u*P2v*PTv*2.0 +
    (Lp1*Lp1)*P2u*P1v*P2v*PTu*2.0 + (Lq1*Lq1)*P0u*P1u*P0v*PTv*2.0 +
    (Lq1*Lq1)*P0u*P0v*P1v*PTu*2.0 + (Lq1*Lq1)*P0u*P1u*P1v*PTv*2.0 +
    (Lq1*Lq1)*P1u*P0v*P1v*PTu*2.0 - (Lp1*Lp1)*P0u*P0v*PTu*PTv*2.0 +
    (Lp1*Lp1)*P0u*P2v*PTu*PTv*2.0 + (Lp1*Lp1)*P2u*P0v*PTu*PTv*2.0 -
    (Lp1*Lp1)*P2u*P2v*PTu*PTv*2.0 - (Lq1*Lq1)*P0u*P0v*PTu*PTv*2.0 +
    (Lq1*Lq1)*P0u*P1v*PTu*PTv*2.0 + (Lq1*Lq1)*P1u*P0v*PTu*PTv*2.0 -
    (Lq1*Lq1)*P1u*P1v*PTu*PTv*2.0 + Lp1*P0u*P1u*P0v*P1v*4.0 + Lp2*P0u*P1u*P0v*P1v*4.0 -
    Lp1*P0u*P1u*P1v*P2v*2.0 - Lp1*P1u*P2u*P0v*P1v*2.0 + Lp2*P0u*P1u*P0v*P2v*2.0 +
    Lp2*P0u*P2u*P0v*P1v*2.0 - Lp2*P0u*P1u*P1v*P2v*2.0 - Lp2*P1u*P2u*P0v*P1v*2.0 -
    Lq1*P0u*P1u*P0v*P1v*4.0 - Lp1*P0u*P1u*P0v*PTv*4.0 - Lp1*P0u*P0v*P1v*PTu*4.0 -
    Lp1*P0u*P1u*P1v*PTv*2.0 - Lp1*P1u*P0v*P1v*PTu*2.0 - Lp2*P0u*P1u*P0v*PTv*6.0 -
    Lp2*P0u*P0v*P1v*PTu*6.0 + Lp1*P0u*P1u*P2v*PTv*2.0 - Lp1*P0u*P2u*P1v*PTv*4.0 +
    Lp1*P0u*P1v*P2v*PTu*2.0 + Lp1*P1u*P2u*P0v*PTv*2.0 - Lp1*P1u*P0v*P2v*PTu*4.0 +
    Lp1*P2u*P0v*P1v*PTu*2.0 - Lp2*P0u*P1u*P1v*PTv*2.0 - Lp2*P0u*P2u*P0v*PTv*2.0 -
    Lp2*P0u*P0v*P2v*PTu*2.0 - Lp2*P1u*P0v*P1v*PTu*2.0 + Lp1*P1u*P2u*P1v*PTv*2.0 +
    Lp1*P1u*P1v*P2v*PTu*2.0 - Lp2*P0u*P2u*P1v*PTv*6.0 + Lp2*P0u*P1v*P2v*PTu*6.0 +
    Lp2*P1u*P2u*P0v*PTv*6.0 - Lp2*P1u*P0v*P2v*PTu*6.0 + Lp2*P1u*P2u*P1v*PTv*2.0 +
    Lp2*P1u*P1v*P2v*PTu*2.0 + Lq1*P0u*P1u*P0v*PTv*4.0 + Lq1*P0u*P0v*P1v*PTu*4.0 +
    Lq1*P0u*P1u*P1v*PTv*4.0 + Lq1*P1u*P0v*P1v*PTu*4.0 + Lp1*P0u*P0v*PTu*PTv*4.0 -
    Lp1*P0u*P1v*PTu*PTv*2.0 - Lp1*P1u*P0v*PTu*PTv*2.0 + Lp2*P0u*P0v*PTu*PTv*8.0 -
    Lp1*P0u*P2v*PTu*PTv*2.0 - Lp1*P2u*P0v*PTu*PTv*2.0 - Lp2*P0u*P1v*PTu*PTv*4.0 -
    Lp2*P1u*P0v*PTu*PTv*4.0 + Lp1*P1u*P2v*PTu*PTv*2.0 + Lp1*P2u*P1v*PTu*PTv*2.0 -
    Lp2*P0u*P2v*PTu*PTv*4.0 - Lp2*P2u*P0v*PTu*PTv*4.0 + Lp2*P1u*P2v*PTu*PTv*4.0 +
    Lp2*P2u*P1v*PTu*PTv*4.0 - Lq1*P0u*P0v*PTu*PTv*4.0 + Lq1*P0u*P1v*PTu*PTv*4.0 +
    Lq1*P1u*P0v*PTu*PTv*4.0 - Lq1*P1u*P1v*PTu*PTv*4.0 - Lp1*Lp2*P0u*P1u*P0v*P1v*4.0 +
    Lp1*Lp2*P0u*P1u*P0v*P2v*2.0 + Lp1*Lp2*P0u*P2u*P0v*P1v*2.0 + Lp1*Lp2*P0u*P1u*P1v*P2v*4.0 +
    Lp1*Lp2*P1u*P2u*P0v*P1v*4.0 + Lp1*Lp2*P0u*P2u*P1v*P2v*2.0 + Lp1*Lp2*P1u*P2u*P0v*P2v*2.0 -
    Lp1*Lp2*P1u*P2u*P1v*P2v*4.0 + Lp1*Lq1*P0u*P1u*P0v*P1v*4.0 - Lp1*Lq1*P0u*P1u*P0v*P2v*4.0 -
    Lp1*Lq1*P0u*P2u*P0v*P1v*4.0 + Lp2*Lq1*P0u*P1u*P0v*P1v*4.0 - Lp1*Lq1*P0u*P1u*P1v*P2v*2.0 -
    Lp1*Lq1*P1u*P2u*P0v*P1v*2.0 - Lp2*Lq1*P0u*P1u*P0v*P2v*2.0 - Lp2*Lq1*P0u*P2u*P0v*P1v*2.0 -
    Lp2*Lq1*P0u*P1u*P1v*P2v*2.0 - Lp2*Lq1*P1u*P2u*P0v*P1v*2.0 + Lp1*Lp2*P0u*P1u*P0v*PTv*2.0 +
    Lp1*Lp2*P0u*P0v*P1v*PTu*2.0 - Lp1*Lp2*P0u*P2u*P0v*PTv*2.0 - Lp1*Lp2*P0u*P0v*P2v*PTu*2.0 -
    Lp1*Lp2*P0u*P1u*P2v*PTv*2.0 + Lp1*Lp2*P0u*P2u*P1v*PTv*4.0 - Lp1*Lp2*P0u*P1v*P2v*PTu*2.0 -
    Lp1*Lp2*P1u*P2u*P0v*PTv*2.0 + Lp1*Lp2*P1u*P0v*P2v*PTu*4.0 - Lp1*Lp2*P2u*P0v*P1v*PTu*2.0 -
    Lp1*Lp2*P0u*P2u*P2v*PTv*2.0 - Lp1*Lp2*P2u*P0v*P2v*PTu*2.0 + Lp1*Lp2*P1u*P2u*P2v*PTv*2.0 +
    Lp1*Lp2*P2u*P1v*P2v*PTu*2.0 - Lp1*Lq1*P0u*P1u*P1v*PTv*2.0 + Lp1*Lq1*P0u*P2u*P0v*PTv*4.0 +
    Lp1*Lq1*P0u*P0v*P2v*PTu*4.0 - Lp1*Lq1*P1u*P0v*P1v*PTu*2.0 - Lp2*Lq1*P0u*P1u*P0v*PTv*2.0 -
    Lp2*Lq1*P0u*P0v*P1v*PTu*2.0 + Lp1*Lq1*P0u*P1u*P2v*PTv*6.0 - Lp1*Lq1*P0u*P1v*P2v*PTu*6.0 -
    Lp1*Lq1*P1u*P2u*P0v*PTv*6.0 + Lp1*Lq1*P2u*P0v*P1v*PTu*6.0 - Lp2*Lq1*P0u*P1u*P1v*PTv*2.0 +
    Lp2*Lq1*P0u*P2u*P0v*PTv*2.0 + Lp2*Lq1*P0u*P0v*P2v*PTu*2.0 - Lp2*Lq1*P1u*P0v*P1v*PTu*2.0 +
    Lp1*Lq1*P1u*P2u*P1v*PTv*2.0 + Lp1*Lq1*P1u*P1v*P2v*PTu*2.0 + Lp2*Lq1*P0u*P1u*P2v*PTv*4.0 -
    Lp2*Lq1*P0u*P2u*P1v*PTv*2.0 - Lp2*Lq1*P0u*P1v*P2v*PTu*2.0 - Lp2*Lq1*P1u*P2u*P0v*PTv*2.0 -
    Lp2*Lq1*P1u*P0v*P2v*PTu*2.0 + Lp2*Lq1*P2u*P0v*P1v*PTu*4.0 + Lp2*Lq1*P1u*P2u*P1v*PTv*2.0 +
    Lp2*Lq1*P1u*P1v*P2v*PTu*2.0 - Lp1*Lq1*P0u*P0v*PTu*PTv*4.0 + Lp1*Lq1*P0u*P1v*PTu*PTv*2.0 +
    Lp1*Lq1*P1u*P0v*PTu*PTv*2.0 + Lp1*Lq1*P0u*P2v*PTu*PTv*2.0 + Lp1*Lq1*P2u*P0v*PTu*PTv*2.0 -
    Lp1*Lq1*P1u*P2v*PTu*PTv*2.0 - Lp1*Lq1*P2u*P1v*PTu*PTv*2.0"

definition dR_neg_numerator ::
    "real \<Rightarrow> real \<Rightarrow> real \<Rightarrow> real \<Rightarrow> real \<Rightarrow> real
      \<Rightarrow> real \<Rightarrow> real \<Rightarrow> real \<Rightarrow> real \<Rightarrow> real \<Rightarrow> real \<Rightarrow> real" where
  "dR_neg_numerator sq PTu PTv P0u P0v P1u P1v P2u P2v Lp1 Lp2 Lq1 =
    sq*(1.0 / 2.0) + P0u*P1v*(1.0 / 2.0) - P1u*P0v*(1.0 / 2.0) - P0u*PTv*(1.0 / 2.0) +
    P0v*PTu*(1.0 / 2.0) + P1u*PTv*(1.0 / 2.0) - P1v*PTu*(1.0 / 2.0) - Lp1*P0u*P1v*(1.0 / 2.0) +
    Lp1*P1u*P0v*(1.0 / 2.0) + Lp1*P0u*P2v - Lp1*P2u*P0v - Lp2*P0u*P1v*(1.0 / 2.0) +
    Lp2*P1u*P0v*(1.0 / 2.0) - Lp1*P1u*P2v*(1.0 / 2.0) + Lp1*P2u*P1v*(1.0 / 2.0) +
    Lp2*P0u*P2v*(1.0 / 2.0) - Lp2*P2u*P0v*(1.0 / 2.0) - Lp2*P1u*P2v*(1.0 / 2.0) +
    Lp2*P2u*P1v*(1.0 / 2.0) + Lq1*P0u*P1v*(1.0 / 2.0) - Lq1*P1u*P0v*(1.0 / 2.0) -
    Lp1*P0u*PTv*(1.0 / 2.0) + Lp1*P0v*PTu*(1.0 / 2.0) + Lp1*P2u*PTv*(1.0 / 2.0) -
    Lp1*P2v*PTu*(1.0 / 2.0) - Lq1*P0u*PTv*(1.0 / 2.0) + Lq1*P0v*PTu*(1.0 / 2.0) +
    Lq1*P1u*PTv*(1.0 / 2.0) - Lq1*P1v*PTu*(1.0 / 2.0)"

definition dR_neg_denominator ::
    "real \<Rightarrow> real \<Rightarrow> real \<Rightarrow> real \<Rightarrow> real \<Rightarrow> real
      \<Rightarrow> real \<Rightarrow> real \<Rightarrow> real \<Rightarrow> real \<Rightarrow> real \<Rightarrow> real" where
  "dR_neg_denominator PTu PTv P0u P0v P1u P1v P2u P2v Lp1 Lp2 Lq1 =
    P0u*P1v - P1u*P0v - P0u*PTv + P0v*PTu + P1u*PTv - P1v*PTu - Lp1*P0u*P1v + Lp1*P1u*P0v +
    Lp1*P0u*P2v - Lp1*P2u*P0v - Lp1*P1u*P2v + Lp1*P2u*P1v"

definition dR_pos_radicand ::
    "real \<Rightarrow> real \<Rightarrow> real \<Rightarrow> real \<Rightarrow> real \<Rightarrow> real
      \<Rightarrow> real \<Rightarrow> real \<Rightarrow> real \<Rightarrow> real \<Rightarrow> real \<Rightarrow> real" where
  "dR_pos_radicand PTu PTv P0u P0v P1u P1v P2u P2v Lp1 Lp2 Lq1 =
    Lp1*Lp1*P0u*P0u*P2v*P2v - 2 * Lp1*Lp1*P0u*P0u*P2v*PTv + Lp1*Lp1*P0u*P0u*PTv*PTv -
    2 * Lp1*Lp1*P0u*P2u*P0v*P2v + 2 * Lp1*Lp1*P0u*P2u*P0v*PTv + 2 * Lp1*Lp1*P0u*P2u*P2v*PTv -
    2 * Lp1*Lp1*P0u*P2u*PTv*PTv + 2 * Lp1*Lp1*P0u*P0v*P2v*PTu - 2 * Lp1*Lp1*P0u*P0v*PTu*PTv -
    2 * Lp1*Lp1*P0u*P2v*P2v*PTu + 2 * Lp1*Lp1*P0u*P2v*PTu*PTv + Lp1*Lp1*P2u*P2u*P0v*P0v -
    2 * Lp1*Lp1*P2u*P2u*P0v*PTv + Lp1*Lp1*P2u*P2u*PTv*PTv - 2 * Lp1*Lp1*P2u*P0v*P0v*PTu +
    2 * Lp1*Lp1*P2u*P0v*P2v*PTu + 2 * Lp1*Lp1*P2u*P0v*PTu*PTv - 2 * Lp1*Lp1*P2u*P2v*PTu*PTv +
    Lp1*Lp1*P0v*P0v*PTu*PTu - 2 * Lp1*Lp1*P0v*P2v*PTu*PTu + Lp1*Lp1*P2v*P2v*PTu*PTu -
    2 * Lp1*Lp2*P0u*P0u*P1v*P2v + 2 * Lp1*Lp2*P0u*P0u*P1v*PTv + 2 * Lp1*Lp2*P0u*P0u*P2v*P2v -
    2 * Lp1*Lp2*P0u*P0u*P2v*PTv + 2 * Lp1*Lp2*P0u*P1u*P0v*P2v - 2 * Lp1*Lp2*P0u*P1u*P0v*PTv -
    2 * Lp1*Lp2*P0u*P1u*P2v*P2v + 2 * Lp1*Lp2*P0u*P1u*P2v*PTv + 2 * Lp1*Lp2*P0u*P2u*P0v*P1v -
    4 * Lp1*Lp2*P0u*P2u*P0v*P2v + 2 * Lp1*Lp2*P0u*P2u*P0v*PTv + 2 * Lp1*Lp2*P0u*P2u*P1v*P2v -
    4 * Lp1*Lp2*P0u*P2u*P1v*PTv + 2 * Lp1*Lp2*P0u*P2u*P2v*PTv - 2 * Lp1*Lp2*P0u*P0v*P1v*PTu +
    2 * Lp1*Lp2*P0u*P0v*P2v*PTu + 2 * Lp1*Lp2*P0u*P1v*P2v*PTu - 2 * Lp1*Lp2*P0u*P2v*P2v*PTu -
    2 * Lp1*Lp2*P1u*P2u*P0v*P0v + 2 * Lp1*Lp2*P1u*P2u*P0v*P2v + 2 * Lp1*Lp2*P1u*P2u*P0v*PTv -
    2 * Lp1*Lp2*P1u*P2u*P2v*PTv + 2 * Lp1*Lp2*P1u*P0v*P0v*PTu - 4 * Lp1*Lp2*P1u*P0v*P2v*PTu +
    2 * Lp1*Lp2*P1u*P2v*P2v*PTu + 2 * Lp1*Lp2*P2u*P2u*P0v*P0v - 2 * Lp1*Lp2*P2u*P2u*P0v*P1v -
    2 * Lp1*Lp2*P2u*P2u*P0v*PTv + 2 * Lp1*Lp2*P2u*P2u*P1v*PTv - 2 * Lp1*Lp2*P2u*P0v*P0v*PTu +
    2 * Lp1*Lp2*P2u*P0v*P1v*PTu + 2 * Lp1*Lp2*P2u*P0v*P2v*PTu - 2 * Lp1*Lp2*P2u*P1v*P2v*PTu -
    2 * Lp1*Lq1*P0u*P0u*P1v*P2v + 2 * Lp1*Lq1*P0u*P0u*P1v*PTv + 2 * Lp1*Lq1*P0u*P0u*P2v*PTv -
    2 * Lp1*Lq1*P0u*P0u*PTv*PTv + 2 * Lp1*Lq1*P0u*P1u*P0v*P2v - 2 * Lp1*Lq1*P0u*P1u*P0v*PTv -
    2 * Lp1*Lq1*P0u*P1u*P2v*PTv + 2 * Lp1*Lq1*P0u*P1u*PTv*PTv + 2 * Lp1*Lq1*P0u*P2u*P0v*P1v -
    2 * Lp1*Lq1*P0u*P2u*P0v*PTv - 2 * Lp1*Lq1*P0u*P2u*P1v*PTv + 2 * Lp1*Lq1*P0u*P2u*PTv*PTv -
    2 * Lp1*Lq1*P0u*P0v*P1v*PTu - 2 * Lp1*Lq1*P0u*P0v*P2v*PTu + 4 * Lp1*Lq1*P0u*P0v*PTu*PTv +
    4 * Lp1*Lq1*P0u*P1v*P2v*PTu - 2 * Lp1*Lq1*P0u*P1v*PTu*PTv - 2 * Lp1*Lq1*P0u*P2v*PTu*PTv -
    2 * Lp1*Lq1*P1u*P2u*P0v*P0v + 4 * Lp1*Lq1*P1u*P2u*P0v*PTv - 2 * Lp1*Lq1*P1u*P2u*PTv*PTv +
    2 * Lp1*Lq1*P1u*P0v*P0v*PTu - 2 * Lp1*Lq1*P1u*P0v*P2v*PTu - 2 * Lp1*Lq1*P1u*P0v*PTu*PTv +
    2 * Lp1*Lq1*P1u*P2v*PTu*PTv + 2 * Lp1*Lq1*P2u*P0v*P0v*PTu - 2 * Lp1*Lq1*P2u*P0v*P1v*PTu -
    2 * Lp1*Lq1*P2u*P0v*PTu*PTv + 2 * Lp1*Lq1*P2u*P1v*PTu*PTv - 2 * Lp1*Lq1*P0v*P0v*PTu*PTu +
    2 * Lp1*Lq1*P0v*P1v*PTu*PTu + 2 * Lp1*Lq1*P0v*P2v*PTu*PTu - 2 * Lp1*Lq1*P1v*P2v*PTu*PTu +
    Lp2*Lp2*P0u*P0u*P1v*P1v - 2 * Lp2*Lp2*P0u*P0u*P1v*P2v + Lp2*Lp2*P0u*P0u*P2v*P2v -
    2 * Lp2*Lp2*P0u*P1u*P0v*P1v + 2 * Lp2*Lp2*P0u*P1u*P0v*P2v + 2 * Lp2*Lp2*P0u*P1u*P1v*P2v -
    2 * Lp2*Lp2*P0u*P1u*P2v*P2v + 2 * Lp2*Lp2*P0u*P2u*P0v*P1v - 2 * Lp2*Lp2*P0u*P2u*P0v*P2v -
    2 * Lp2*Lp2*P0u*P2u*P1v*P1v + 2 * Lp2*Lp2*P0u*P2u*P1v*P2v + Lp2*Lp2*P1u*P1u*P0v*P0v -
    2 * Lp2*Lp2*P1u*P1u*P0v*P2v + Lp2*Lp2*P1u*P1u*P2v*P2v - 2 * Lp2*Lp2*P1u*P2u*P0v*P0v +
    2 * Lp2*Lp2*P1u*P2u*P0v*P1v + 2 * Lp2*Lp2*P1u*P2u*P0v*P2v - 2 * Lp2*Lp2*P1u*P2u*P1v*P2v +
    Lp2*Lp2*P2u*P2u*P0v*P0v - 2 * Lp2*Lp2*P2u*P2u*P0v*P1v + Lp2*Lp2*P2u*P2u*P1v*P1v -
    2 * Lp2*Lq1*P0u*P0u*P1v*P1v + 2 * Lp2*Lq1*P0u*P0u*P1v*P2v + 2 * Lp2*Lq1*P0u*P0u*P1v*PTv -
    2 * Lp2*Lq1*P0u*P0u*P2v*PTv + 4 * Lp2*Lq1*P0u*P1u*P0v*P1v - 2 * Lp2*Lq1*P0u*P1u*P0v*P2v -
    2 * Lp2*Lq1*P0u*P1u*P0v*PTv - 2 * Lp2*Lq1*P0u*P1u*P1v*P2v - 2 * Lp2*Lq1*P0u*P1u*P1v*PTv +
    4 * Lp2*Lq1*P0u*P1u*P2v*PTv - 2 * Lp2*Lq1*P0u*P2u*P0v*P1v + 2 * Lp2*Lq1*P0u*P2u*P0v*PTv +
    2 * Lp2*Lq1*P0u*P2u*P1v*P1v - 2 * Lp2*Lq1*P0u*P2u*P1v*PTv - 2 * Lp2*Lq1*P0u*P0v*P1v*PTu +
    2 * Lp2*Lq1*P0u*P0v*P2v*PTu + 2 * Lp2*Lq1*P0u*P1v*P1v*PTu - 2 * Lp2*Lq1*P0u*P1v*P2v*PTu -
    2 * Lp2*Lq1*P1u*P1u*P0v*P0v + 2 * Lp2*Lq1*P1u*P1u*P0v*P2v + 2 * Lp2*Lq1*P1u*P1u*P0v*PTv -
    2 * Lp2*Lq1*P1u*P1u*P2v*PTv + 2 * Lp2*Lq1*P1u*P2u*P0v*P0v - 2 * Lp2*Lq1*P1u*P2u*P0v*P1v -
    2 * Lp2*Lq1*P1u*P2u*P0v*PTv + 2 * Lp2*Lq1*P1u*P2u*P1v*PTv + 2 * Lp2*Lq1*P1u*P0v*P0v*PTu -
    2 * Lp2*Lq1*P1u*P0v*P1v*PTu - 2 * Lp2*Lq1*P1u*P0v*P2v*PTu + 2 * Lp2*Lq1*P1u*P1v*P2v*PTu -
    2 * Lp2*Lq1*P2u*P0v*P0v*PTu + 4 * Lp2*Lq1*P2u*P0v*P1v*PTu - 2 * Lp2*Lq1*P2u*P1v*P1v*PTu +
    4 * Lp2*P0u*P0u*P1v*P2v - 4 * Lp2*P0u*P0u*P1v*PTv - 4 * Lp2*P0u*P0u*P2v*PTv +
    4 * Lp2*P0u*P0u*PTv*PTv - 4 * Lp2*P0u*P1u*P0v*P2v + 4 * Lp2*P0u*P1u*P0v*PTv +
    4 * Lp2*P0u*P1u*P2v*PTv - 4 * Lp2*P0u*P1u*PTv*PTv - 4 * Lp2*P0u*P2u*P0v*P1v +
    4 * Lp2*P0u*P2u*P0v*PTv + 4 * Lp2*P0u*P2u*P1v*PTv - 4 * Lp2*P0u*P2u*PTv*PTv +
    4 * Lp2*P0u*P0v*P1v*PTu + 4 * Lp2*P0u*P0v*P2v*PTu - 8 * Lp2*P0u*P0v*PTu*PTv -
    8 * Lp2*P0u*P1v*P2v*PTu + 4 * Lp2*P0u*P1v*PTu*PTv + 4 * Lp2*P0u*P2v*PTu*PTv +
    4 * Lp2*P1u*P2u*P0v*P0v - 8 * Lp2*P1u*P2u*P0v*PTv + 4 * Lp2*P1u*P2u*PTv*PTv -
    4 * Lp2*P1u*P0v*P0v*PTu + 4 * Lp2*P1u*P0v*P2v*PTu + 4 * Lp2*P1u*P0v*PTu*PTv -
    4 * Lp2*P1u*P2v*PTu*PTv - 4 * Lp2*P2u*P0v*P0v*PTu + 4 * Lp2*P2u*P0v*P1v*PTu +
    4 * Lp2*P2u*P0v*PTu*PTv - 4 * Lp2*P2u*P1v*PTu*PTv + 4 * Lp2*P0v*P0v*PTu*PTu -
    4 * Lp2*P0v*P1v*PTu*PTu - 4 * Lp2*P0v*P2v*PTu*PTu + 4 * Lp2*P1v*P2v*PTu*PTu +
    Lq1*Lq1*P0u*P0u*P1v*P1v - 2 * Lq1*Lq1*P0u*P0u*P1v*PTv + Lq1*Lq1*P0u*P0u*PTv*PTv -
    2 * Lq1*Lq1*P0u*P1u*P0v*P1v + 2 * Lq1*Lq1*P0u*P1u*P0v*PTv + 2 * Lq1*Lq1*P0u*P1u*P1v*PTv -
    2 * Lq1*Lq1*P0u*P1u*PTv*PTv + 2 * Lq1*Lq1*P0u*P0v*P1v*PTu - 2 * Lq1*Lq1*P0u*P0v*PTu*PTv -
    2 * Lq1*Lq1*P0u*P1v*P1v*PTu + 2 * Lq1*Lq1*P0u*P1v*PTu*PTv + Lq1*Lq1*P1u*P1u*P0v*P0v -
    2 * Lq1*Lq1*P1u*P1u*P0v*PTv + Lq1*Lq1*P1u*P1u*PTv*PTv - 2 * Lq1*Lq1*P1u*P0v*P0v*PTu +
    2 * Lq1*Lq1*P1u*P0v*P1v*PTu + 2 * Lq1*Lq1*P1u*P0v*PTu*PTv - 2 * Lq1*Lq1*P1u*P1v*PTu*PTv +
    Lq1*Lq1*P0v*P0v*PTu*PTu - 2 * Lq1*Lq1*P0v*P1v*PTu*PTu + Lq1*Lq1*P1v*P1v*PTu*PTu"

definition dR_pos_numerator ::
    "real \<Rightarrow> real \<Rightarrow> real \<Rightarrow> real \<Rightarrow> real \<Rightarrow> real
      \<Rightarrow> real \<Rightarrow> real \<Rightarrow> real \<Rightarrow> real \<Rightarrow> real \<Rightarrow> real \<Rightarrow> real" where
  "dR_pos_numerator sq PTu PTv P0u P0v P1u P1v P2u P2v Lp1 Lp2 Lq1 =
    sq + 2 * P0u*P1v - 2 * P1u*P0v - 2 * P0u*PTv + 2 * P0v*PTu + 2 * P1u*PTv - 2 * P1v*PTu -
    2 * Lp1*P0u*P1v + 2 * Lp1*P1u*P0v + Lp1*P0u*P2v - Lp1*P2u*P0v - Lp2*P0u*P1v + Lp2*P1u*P0v -
    2 * Lp1*P1u*P2v + 2 * Lp1*P2u*P1v + Lp2*P0u*P2v - Lp2*P2u*P0v - Lp2*P1u*P2v + Lp2*P2u*P1v +
    Lq1*P0u*P1v - Lq1*P1u*P0v + Lp1*P0u*PTv - Lp1*P0v*PTu - Lp1*P2u*PTv + Lp1*P2v*PTu -
    Lq1*P0u*PTv + Lq1*P0v*PTu + Lq1*P1u*PTv - Lq1*P1v*PTu"

definition dR_pos_denominator ::
    "real \<Rightarrow> real \<Rightarrow> real \<Rightarrow> real \<Rightarrow> real \<Rightarrow> real
      \<Rightarrow> real \<Rightarrow> real \<Rightarrow> real \<Rightarrow> real \<Rightarrow> real \<Rightarrow> real" where
  "dR_pos_denominator PTu PTv P0u P0v P1u P1v P2u P2v Lp1 Lp2 Lq1 =
    2 * (P0u*P1v - P1u*P0v - P0u*PTv + P0v*PTu + P1u*PTv - P1v*PTu - Lp1*P0u*P1v + Lp1*P1u*P0v +
    Lp1*P0u*P2v - Lp1*P2u*P0v - Lp1*P1u*P2v + Lp1*P2u*P1v)"

definition dR_neg ::
    "real \<Rightarrow> real \<Rightarrow> real \<Rightarrow> real \<Rightarrow> real \<Rightarrow> real
      \<Rightarrow> real \<Rightarrow> real \<Rightarrow> real \<Rightarrow> real \<Rightarrow> real \<Rightarrow> fault + real" where
  "dR_neg PTu PTv P0u P0v P1u P1v P2u P2v Lp1 Lp2 Lq1 =
    (let rad = dR_neg_radicand PTu PTv P0u P0v P1u P1v P2u P2v Lp1 Lp2 Lq1;
         den = dR_neg_denominator PTu PTv P0u P0v P1u P1v P2u P2v Lp1 Lp2 Lq1
     in if rad < 0 then Inl NotANumber
        else if den = 0 then Inl DivisionByZero
        else Inr (dR_neg_numerator (sqrt rad) PTu PTv P0u P0v P1u P1v P2u P2v Lp1 Lp2 Lq1
                  / den))"

definition dR_pos ::
    "real \<Rightarrow> real \<Rightarrow> real \<Rightarrow> real \<Rightarrow> real \<Rightarrow> real
      \<Rightarrow> real \<Rightarrow> real \<Rightarrow> real \<Rightarrow> real \<Rightarrow> real \<Rightarrow> fault + real" where
  "dR_pos PTu PTv P0u P0v P1u P1v P2u P2v Lp1 Lp2 Lq1 =
    (let rad = dR_pos_radicand PTu PTv P0u P0v P1u P1v P2u P2v Lp1 Lp2 Lq1;
         den = dR_pos_denominator PTu PTv P0u P0v P1u P1v P2u P2v Lp1 Lp2 Lq1
     in if rad < 0 then Inl NotANumber
        else if den = 0 then Inl DivisionByZero
        else Inr (1.0 - dR_pos_numerator (sqrt rad) PTu PTv P0u P0v P1u P1v P2u P2v Lp1 Lp2 Lq1
                        / den))"

text \<open>Sequencing of fallible steps: the first fault ends the operation.\<close>

definition bind_fault :: "fault + 'a \<Rightarrow> ('a \<Rightarrow> fault + 'b) \<Rightarrow> fault + 'b" where
  "bind_fault m f = (case m of Inl e \<Rightarrow> Inl e | Inr x \<Rightarrow> f x)"

definition findCoefficient_m ::
    "Luv \<Rightarrow> Luv \<Rightarrow> Luv \<Rightarrow> Luv \<Rightarrow> float3 \<Rightarrow> float3 \<Rightarrow> fault + real" where
  "findCoefficient_m PT P0 P1 P2 rightHandFit leftHandFit =
    (let PTu = u PT; PTv = v PT;
         P0u = u P0; P0v = v P0;
         P1u = u P1; P1v = v P1;
         P2u = u P2; P2v = v P2;
         Rp1 = at0 rightHandFit; Rp2 = at1 rightHandFit; Rq1 = at2 rightHandFit;
         Lp1 = at0 leftHandFit; Lp2 = at1 leftHandFit; Lq1 = at2 leftHandFit
     in bind_fault
          (if Lp1 < 0 then dR_neg PTu PTv P0u P0v P1u P1v P2u P2v Lp1 Lp2 Lq1
           else dR_pos PTu PTv P0u P0v P1u P1v P2u P2v Lp1 Lp2 Lq1)
          (\<lambda>dR.
            if Rp1 < 0
            then (if dR + Rq1 = 0 then Inl DivisionByZero
                  else Inr ((Rp1*dR + Rp2) / (dR + Rq1)))
            else (if (1 - dR) + Rq1 = 0 then Inl DivisionByZero
                  else Inr ((Rp1*(1 - dR) + Rp2) / ((1 - dR) + Rq1)))))"

section \<open>Perceptual setter\<close>

text \<open>
  \<^verbatim>\<open>setCie1976Ucs\<close> (lines 90 to 137) in its stages: the three coefficients (lines 101 to
  106), the scaling to the target luma (lines 108 to 121), the largest channel (lines 123
  to 126), the limit to full power (lines 128 to 133), and the final \<^verbatim>\<open>setRaw\<close>.
\<close>

definition findCoefficients :: "LedEngine \<Rightarrow> Luv \<Rightarrow> fault + RGB" where
  "findCoefficients s target =
    bind_fault (findCoefficient_m target (redUv_m s) (greenUv_m s) (blueUv_m s)
                  (redToGreenFit_m s) (greenToBlueFit_m s)) (\<lambda>rawR.
    bind_fault (findCoefficient_m target (greenUv_m s) (blueUv_m s) (redUv_m s)
                  (greenToBlueFit_m s) (blueToRedFit_m s)) (\<lambda>rawG.
    bind_fault (findCoefficient_m target (blueUv_m s) (redUv_m s) (greenUv_m s)
                  (blueToRedFit_m s) (redToGreenFit_m s)) (\<lambda>rawB.
    Inr \<lparr>R = rawR, G = rawG, B = rawB\<rparr>)))"

definition scaleToTargetLuma :: "LedEngine \<Rightarrow> Luv \<Rightarrow> RGB \<Rightarrow> fault + RGB" where
  "scaleToTargetLuma s target raw =
    (if maxLum_m s = 0 then Inl DivisionByZero
     else
      (let Y = (R raw * redLum_m s + G raw * greenLum_m s + B raw * blueLum_m s) / maxLum_m s;
           Y_target = (L target + 16) / 116;
           Y_target = Y_target * Y_target * Y_target
       in if Y = 0 then Inl DivisionByZero
          else (let C = Y_target / Y
                in Inr \<lparr>R = R raw * C, G = G raw * C, B = B raw * C\<rparr>)))"

definition maxRaw :: "RGB \<Rightarrow> real" where
  "maxRaw raw =
    (let m = R raw;
         m = (if G raw > m then G raw else m);
         m = (if B raw > m then B raw else m)
     in m)"

definition limitToMaxPower :: "RGB \<Rightarrow> RGB" where
  "limitToMaxPower raw =
    (if maxRaw raw > 1
     then \<lparr>R = R raw * (1.0 / maxRaw raw),
           G = G raw * (1.0 / maxRaw raw),
           B = B raw * (1.0 / maxRaw raw)\<rparr>
     else raw)"

definition setCie1976Ucs :: "LedEngine \<Rightarrow> Luv \<Rightarrow> fault + LedEngine" where
  "setCie1976Ucs s target =
    (let s1 = s\<lparr>luv_m := \<lparr>L = L target, u = u target, v = v target\<rparr>\<rparr>;
         s2 = (if L (luv_m s1) < 0 then s1\<lparr>luv_m := (luv_m s1)\<lparr>L := 0\<rparr>\<rparr> else s1)
     in bind_fault (findCoefficients s2 target) (\<lambda>raw.
        bind_fault (scaleToTargetLuma s2 target raw) (\<lambda>raw.
        setRaw s2 (limitToMaxPower raw))))"


definition saveTarget :: "LedEngine \<Rightarrow> Luv \<Rightarrow> LedEngine" where
  "saveTarget s target =
    (let s1 = s\<lparr>luv_m := \<lparr>L = L target, u = u target, v = v target\<rparr>\<rparr>
     in if L (luv_m s1) < 0 then s1\<lparr>luv_m := (luv_m s1)\<lparr>L := 0\<rparr>\<rparr> else s1)"



section \<open>Colour temperature setter\<close>

text \<open>
  \<^verbatim>\<open>setColorTemperature\<close> (lines 143 to 166). The z-score of line 149 and the numerators
  and denominators of lines 153 and 154 are named; \<^verbatim>\<open>x2\<close>, \<^verbatim>\<open>x3\<close> and \<^verbatim>\<open>x4\<close> are the
  source's locals. The parameter \<^verbatim>\<open>L\<close> is \<open>lightness\<close> here (\<open>L\<close> is the field of
  \<open>Luv\<close>).
\<close>

definition zscore :: "16 word \<Rightarrow> real" where
  "zscore T = (u16_to_real T - 5500.0) / 2599.0"

definition u_numerator :: "real \<Rightarrow> real" where
  "u_numerator x =
    (let x2 = x*x; x3 = x*x*x
     in - 0.0001747*x3 + 0.1833*x2 + 0.872*x + 1.227)"

definition u_denominator :: "real \<Rightarrow> real" where
  "u_denominator x = (let x2 = x*x in x2 + 4.813*x + 5.933)"

definition v_numerator :: "real \<Rightarrow> real" where
  "v_numerator x =
    (let x2 = x*x; x3 = x*x*x; x4 = x*x*x*x
     in 0.000311*x4 + 0.0009124*x3 + 0.3856*x2 + 1.873*x + 2.619)"

definition v_denominator :: "real \<Rightarrow> real" where
  "v_denominator x = (let x2 = x*x in x2 + 4.323*x + 5.485)"

definition setColorTemperature :: "LedEngine \<Rightarrow> real \<Rightarrow> 16 word \<Rightarrow> fault + LedEngine" where
  "setColorTemperature s lightness T =
    (let x = zscore T;
         u = u_numerator x / u_denominator x;
         v = v_numerator x / v_denominator x;
         luv = \<lparr>L = L (luv_m s), u = u, v = v\<rparr>;
         luv = (if lightness > 0 then luv\<lparr>L := lightness\<rparr> else luv)
     in bind_fault (setCie1976Ucs s luv) (\<lambda>s'. Inr (s'\<lparr>T_m := T\<rparr>)))"

section \<open>Calibration store and constructor\<close>

text \<open>
  \<^verbatim>\<open>calibrate\<close> (lines 168 to 199): \<open>storeCalibration\<close> is lines 172 to 190, where of
  each primary only \<^verbatim>\<open>u\<close> and \<^verbatim>\<open>v\<close> are copied and the loop copies the three elements
  of each fit; \<open>calibrate\<close> then updates the current colour (lines 192 to 198).
\<close>

definition storeCalibration ::
    "LedEngine \<Rightarrow> Luv \<Rightarrow> Luv \<Rightarrow> Luv \<Rightarrow> real \<Rightarrow> real \<Rightarrow> real
      \<Rightarrow> float3 \<Rightarrow> float3 \<Rightarrow> float3 \<Rightarrow> LedEngine" where
  "storeCalibration s redUv greenUv blueUv redLum greenLum blueLum
      redToGreenFit greenToBlueFit blueToRedFit =
    s\<lparr>redUv_m := (redUv_m s)\<lparr>u := u redUv, v := v redUv\<rparr>,
      greenUv_m := (greenUv_m s)\<lparr>u := u greenUv, v := v greenUv\<rparr>,
      blueUv_m := (blueUv_m s)\<lparr>u := u blueUv, v := v blueUv\<rparr>,
      redLum_m := redLum,
      greenLum_m := greenLum,
      blueLum_m := blueLum,
      redToGreenFit_m := (at0 redToGreenFit, at1 redToGreenFit, at2 redToGreenFit),
      greenToBlueFit_m := (at0 greenToBlueFit, at1 greenToBlueFit, at2 greenToBlueFit),
      blueToRedFit_m := (at0 blueToRedFit, at1 blueToRedFit, at2 blueToRedFit)\<rparr>"

definition calibrate ::
    "LedEngine \<Rightarrow> Luv \<Rightarrow> Luv \<Rightarrow> Luv \<Rightarrow> real \<Rightarrow> real \<Rightarrow> real
      \<Rightarrow> float3 \<Rightarrow> float3 \<Rightarrow> float3 \<Rightarrow> fault + LedEngine" where
  "calibrate s redUv greenUv blueUv redLum greenLum blueLum
      redToGreenFit greenToBlueFit blueToRedFit =
    (let s1 = storeCalibration s redUv greenUv blueUv redLum greenLum blueLum
                redToGreenFit greenToBlueFit blueToRedFit
     in if T_m s1 \<ge> 1000 then setColorTemperature s1 (L (luv_m s1)) (T_m s1)
        else if L (luv_m s1) \<ge> 0 then setCie1976Ucs s1 (luv_m s1)
        else Inr s1)"

text \<open>
  The constructor (lines 4 to 25) with the default member initialisers of
  \<^verbatim>\<open>LedEngine.h\<close> (lines 230 to 275). The members \<^verbatim>\<open>onOff_\<close>, \<^verbatim>\<open>raw_\<close>, \<^verbatim>\<open>luv_\<close> and
  \<^verbatim>\<open>T_\<close> have no initialiser: their first values are those of \<open>mem\<close>, the memory the
  object is built in.
\<close>

definition LedEngine_new ::
    "8 word \<Rightarrow> 8 word \<Rightarrow> 8 word \<Rightarrow> 8 word \<Rightarrow> 8 word \<Rightarrow> 16 word \<Rightarrow> LedEngine
      \<Rightarrow> fault + LedEngine" where
  "LedEngine_new redPin greenPin bluePin warmPin coldPin pwmRange mem =
    (let s = \<lparr>redPin_m = redPin, greenPin_m = greenPin, bluePin_m = bluePin,
              warmPin_m = warmPin, coldPin_m = coldPin, pwmRange_m = pwmRange,
              onOff_m = onOff_m mem, raw_m = raw_m mem, luv_m = luv_m mem, T_m = T_m mem,
              redUv_m = \<lparr>L = 100, u = 0.5535, v = 0.5170\<rparr>,
              greenUv_m = \<lparr>L = 100, u = 0.0373, v = 0.5856\<rparr>,
              blueUv_m = \<lparr>L = 100, u = 0.1679, v = 0.1153\<rparr>,
              redLum_m = 0.5, greenLum_m = 1.0, blueLum_m = 0.75, maxLum_m = 2.25,
              redToGreenFit_m = (2.9658, 0.0, 1.9658),
              greenToBlueFit_m = (1.3587, 0.0, 0.3587),
              blueToRedFit_m = (- 0.2121, 0.2121, 0.2121),
              sink = [AnalogWriteRange pwmRange,
                      PinModeOutput redPin, AnalogWrite redPin 0,
                      PinModeOutput greenPin, AnalogWrite greenPin 0,
                      PinModeOutput bluePin, AnalogWrite bluePin 0,
                      PinModeOutput warmPin, AnalogWrite warmPin 0,
                      PinModeOutput coldPin, AnalogWrite coldPin 0]\<rparr>
     in bind_fault (setOnOff s False) (\<lambda>s. setColorTemperature s 50 1900))"

section \<open>The setters with a NaN carried on\<close>

text \<open>
  The square root of a negative number is a NaN, and the machine goes on with it: an
  arithmetic operation on a NaN gives a NaN, and a comparison with a NaN is false. The
  definitions of this section are \<^verbatim>\<open>setCie1976Ucs\<close>, \<^verbatim>\<open>setColorTemperature\<close> and
  \<^verbatim>\<open>calibrate\<close> once more, with that much of the machine in them. A value is a
  \<open>real option\<close>, \<open>None\<close> being the NaN; the arithmetic on numbers is exact, and a division
  of a number by zero is still a fault (of a NaN by zero it is a NaN). \<open>float_of\<close> makes
  of such a value the argument of \<open>setRaw_float\<close>.

  \<open>findCoefficient_float\<close> returns the NaN where \<open>findCoefficient_m\<close> has the fault
  \<open>NotANumber\<close>: what follows \<^verbatim>\<open>sqrt\<close> in \<^verbatim>\<open>findCoefficient_\<close> (lines 238 to 252) only
  multiplies, adds, subtracts and divides. \<open>setCie1976Ucs_float\<close> is lines 90 to 137 line
  by line, \<open>setColorTemperature_float\<close> lines 143 to 166 and \<open>calibrate_float\<close> lines 168 to
  199, each calling the one before. On numbers \<open>setCie1976Ucs_float\<close> is \<open>setCie1976Ucs\<close>
  (\<open>setCie1976Ucs_float_numbers\<close> below).
\<close>

definition nan_plus :: "real option \<Rightarrow> real option \<Rightarrow> real option" where
  "nan_plus a b =
    (case a of None \<Rightarrow> None | Some x \<Rightarrow> (case b of None \<Rightarrow> None | Some y \<Rightarrow> Some (x + y)))"

definition nan_times :: "real option \<Rightarrow> real option \<Rightarrow> real option" where
  "nan_times a b =
    (case a of None \<Rightarrow> None | Some x \<Rightarrow> (case b of None \<Rightarrow> None | Some y \<Rightarrow> Some (x * y)))"

definition nan_divide :: "real option \<Rightarrow> real option \<Rightarrow> fault + real option" where
  "nan_divide a b =
    (case a of None \<Rightarrow> Inr None
     | Some x \<Rightarrow> (case b of None \<Rightarrow> Inr None
                  | Some y \<Rightarrow> if y = 0 then Inl DivisionByZero else Inr (Some (x / y))))"

definition nan_greater :: "real option \<Rightarrow> real option \<Rightarrow> bool" where
  "nan_greater a b =
    (case a of None \<Rightarrow> False | Some x \<Rightarrow> (case b of None \<Rightarrow> False | Some y \<Rightarrow> x > y))"

definition float_of :: "real option \<Rightarrow> float_value" where
  "float_of a = (case a of None \<Rightarrow> NaN | Some x \<Rightarrow> Finite x)"

definition findCoefficient_float ::
    "Luv \<Rightarrow> Luv \<Rightarrow> Luv \<Rightarrow> Luv \<Rightarrow> float3 \<Rightarrow> float3 \<Rightarrow> fault + real option" where
  "findCoefficient_float PT P0 P1 P2 rightHandFit leftHandFit =
    (case findCoefficient_m PT P0 P1 P2 rightHandFit leftHandFit of
       Inl NotANumber \<Rightarrow> Inr None
     | Inl DivisionByZero \<Rightarrow> Inl DivisionByZero
     | Inr level \<Rightarrow> Inr (Some level))"

definition setCie1976Ucs_float ::
    "(float_value \<Rightarrow> int) \<Rightarrow> (real \<Rightarrow> real) \<Rightarrow> LedEngine \<Rightarrow> Luv \<Rightarrow> fault + LedEngine" where
  "setCie1976Ucs_float invalid fl s target =
    (let s2 = saveTarget s target
     in bind_fault (findCoefficient_float target (redUv_m s2) (greenUv_m s2) (blueUv_m s2)
                      (redToGreenFit_m s2) (greenToBlueFit_m s2)) (\<lambda>rawR.
        bind_fault (findCoefficient_float target (greenUv_m s2) (blueUv_m s2) (redUv_m s2)
                      (greenToBlueFit_m s2) (blueToRedFit_m s2)) (\<lambda>rawG.
        bind_fault (findCoefficient_float target (blueUv_m s2) (redUv_m s2) (greenUv_m s2)
                      (blueToRedFit_m s2) (redToGreenFit_m s2)) (\<lambda>rawB.
        bind_fault (nan_divide
                      (nan_plus (nan_plus (nan_times rawR (Some (redLum_m s2)))
                                          (nan_times rawG (Some (greenLum_m s2))))
                                (nan_times rawB (Some (blueLum_m s2))))
                      (Some (maxLum_m s2))) (\<lambda>Y.
        (let Y_target = (L target + 16) / 116;
             Y_target = Y_target * Y_target * Y_target
         in bind_fault (nan_divide (Some Y_target) Y) (\<lambda>C.
            (let rawR = nan_times rawR C;
                 rawG = nan_times rawG C;
                 rawB = nan_times rawB C;
                 maxRaw = rawR;
                 maxRaw = (if nan_greater rawG maxRaw then rawG else maxRaw);
                 maxRaw = (if nan_greater rawB maxRaw then rawB else maxRaw)
             in if nan_greater maxRaw (Some 1)
                then bind_fault (nan_divide (Some 1.0) maxRaw) (\<lambda>k.
                       setRaw_float invalid fl s2
                         \<lparr>Rf = float_of (nan_times rawR k),
                          Gf = float_of (nan_times rawG k),
                          Bf = float_of (nan_times rawB k)\<rparr>)
                else setRaw_float invalid fl s2
                       \<lparr>Rf = float_of rawR, Gf = float_of rawG, Bf = float_of rawB\<rparr>))))))))"

definition setColorTemperature_float ::
    "(float_value \<Rightarrow> int) \<Rightarrow> (real \<Rightarrow> real) \<Rightarrow> LedEngine \<Rightarrow> real \<Rightarrow> 16 word
      \<Rightarrow> fault + LedEngine" where
  "setColorTemperature_float invalid fl s lightness T =
    (let x = zscore T;
         u = u_numerator x / u_denominator x;
         v = v_numerator x / v_denominator x;
         luv = \<lparr>L = L (luv_m s), u = u, v = v\<rparr>;
         luv = (if lightness > 0 then luv\<lparr>L := lightness\<rparr> else luv)
     in bind_fault (setCie1976Ucs_float invalid fl s luv) (\<lambda>s'. Inr (s'\<lparr>T_m := T\<rparr>)))"

definition calibrate_float ::
    "(float_value \<Rightarrow> int) \<Rightarrow> (real \<Rightarrow> real) \<Rightarrow> LedEngine \<Rightarrow> Luv \<Rightarrow> Luv \<Rightarrow> Luv
      \<Rightarrow> real \<Rightarrow> real \<Rightarrow> real \<Rightarrow> float3 \<Rightarrow> float3 \<Rightarrow> float3 \<Rightarrow> fault + LedEngine" where
  "calibrate_float invalid fl s redUv greenUv blueUv redLum greenLum blueLum
      redToGreenFit greenToBlueFit blueToRedFit =
    (let s1 = storeCalibration s redUv greenUv blueUv redLum greenLum blueLum
                redToGreenFit greenToBlueFit blueToRedFit
     in if T_m s1 \<ge> 1000 then setColorTemperature_float invalid fl s1 (L (luv_m s1)) (T_m s1)
        else if L (luv_m s1) \<ge> 0 then setCie1976Ucs_float invalid fl s1 (luv_m s1)
        else Inr s1)"


section \<open>Vocabulary of the properties\<close>

text \<open>Every component of the raw state, as \<open>getRaw\<close> returns it, lies in \<open>[0, 1]\<close>.\<close>

definition rawInUnitRange :: "LedEngine \<Rightarrow> bool" where
  "rawInUnitRange s \<longleftrightarrow>
    0 \<le> R (getRaw s) \<and> R (getRaw s) \<le> 1 \<and>
    0 \<le> G (getRaw s) \<and> G (getRaw s) \<le> 1 \<and>
    0 \<le> B (getRaw s) \<and> B (getRaw s) \<le> 1"

text \<open>The three calls \<open>setRaw\<close> makes to \<^verbatim>\<open>analogWrite\<close> for a requested colour.\<close>

definition dutyWrites_rounded :: "(real \<Rightarrow> real) \<Rightarrow> LedEngine \<Rightarrow> RGB \<Rightarrow> pwm_call list" where
  "dutyWrites_rounded fl s raw =
    [AnalogWrite (redPin_m s) (duty_rounded fl s (R raw)),
     AnalogWrite (greenPin_m s) (duty_rounded fl s (G raw)),
     AnalogWrite (bluePin_m s) (duty_rounded fl s (B raw))]"

definition dutyWrites :: "LedEngine \<Rightarrow> RGB \<Rightarrow> pwm_call list" where
  "dutyWrites s raw = dutyWrites_rounded (\<lambda>x. x) s raw"


text \<open>The value both caches hold after \<open>setRaw\<close>.\<close>

definition unsetLuv :: Luv where
  "unsetLuv = \<lparr>L = - 1, u = - 1, v = - 1\<rparr>"

text \<open>
  The solver's output scaled to the target luma, before the limit to full power: what
  \<open>setCie1976Ucs\<close> holds in \<^verbatim>\<open>raw\<close> at line 123.
\<close>

definition scaledRaw :: "LedEngine \<Rightarrow> Luv \<Rightarrow> fault + RGB" where
  "scaledRaw s target = bind_fault (findCoefficients s target) (scaleToTargetLuma s target)"


text \<open>
  The argument of \<^verbatim>\<open>sqrt\<close> in the call
  \<^verbatim>\<open>findCoefficient_(PT, P0, P1, P2, rightHandFit, leftHandFit)\<close>.
\<close>

definition radicand :: "Luv \<Rightarrow> Luv \<Rightarrow> Luv \<Rightarrow> Luv \<Rightarrow> float3 \<Rightarrow> real" where
  "radicand PT P0 P1 P2 leftHandFit =
    (if at0 leftHandFit < 0
     then dR_neg_radicand (u PT) (v PT) (u P0) (v P0) (u P1) (v P1) (u P2) (v P2)
            (at0 leftHandFit) (at1 leftHandFit) (at2 leftHandFit)
     else dR_pos_radicand (u PT) (v PT) (u P0) (v P0) (u P1) (v P1) (u P2) (v P2)
            (at0 leftHandFit) (at1 leftHandFit) (at2 leftHandFit))"

text \<open>A polynomial of degree at most four, by its coefficients.\<close>

definition quartic :: "real \<Rightarrow> real \<Rightarrow> real \<Rightarrow> real \<Rightarrow> real \<Rightarrow> real \<Rightarrow> real" where
  "quartic a4 a3 a2 a1 a0 x = a4 * x^4 + a3 * x^3 + a2 * x^2 + a1 * x + a0"

text \<open>Twice the signed area of the triangle \<open>X\<close>, \<open>Y\<close>, \<open>Z\<close> of the chromaticity plane.\<close>

definition cross :: "real \<Rightarrow> real \<Rightarrow> real \<Rightarrow> real \<Rightarrow> real \<Rightarrow> real \<Rightarrow> real" where
  "cross Xu Xv Yu Yv Zu Zv = Xu*Yv - Yu*Xv - Xu*Zv + Xv*Zu + Yu*Zv - Yv*Zu"

section \<open>The engine as built\<close>

text \<open>The calibration of the default member initialisers (\<^verbatim>\<open>LedEngine.h\<close>, lines 230 to 275).\<close>

definition hasDefaultCalibration :: "LedEngine \<Rightarrow> bool" where
  "hasDefaultCalibration s \<longleftrightarrow>
    redUv_m s = \<lparr>L = 100, u = 0.5535, v = 0.5170\<rparr> \<and>
    greenUv_m s = \<lparr>L = 100, u = 0.0373, v = 0.5856\<rparr> \<and>
    blueUv_m s = \<lparr>L = 100, u = 0.1679, v = 0.1153\<rparr> \<and>
    redLum_m s = 0.5 \<and> greenLum_m s = 1.0 \<and> blueLum_m s = 0.75 \<and> maxLum_m s = 2.25 \<and>
    redToGreenFit_m s = (2.9658, 0.0, 1.9658) \<and>
    greenToBlueFit_m s = (1.3587, 0.0, 0.3587) \<and>
    blueToRedFit_m s = (- 0.2121, 0.2121, 0.2121)"

text \<open>
  The target \<open>setColorTemperature\<close> passes to \<open>setCie1976Ucs\<close> for 1900 K (the constructor's
  temperature) and for 65535 K, with lightness \<open>l\<close>.
\<close>

definition warmWhite :: "real \<Rightarrow> Luv" where
  "warmWhite l = \<lparr>L = l, u = u_numerator (zscore 1900) / u_denominator (zscore 1900),
                        v = v_numerator (zscore 1900) / v_denominator (zscore 1900)\<rparr>"

definition coldest :: "real \<Rightarrow> Luv" where
  "coldest l = \<lparr>L = l, u = u_numerator (zscore 65535) / u_denominator (zscore 65535),
                      v = v_numerator (zscore 65535) / v_denominator (zscore 65535)\<rparr>"

text \<open>
  The engine the constructor returns for the pins 12, 13, 14, 4, 5 and the PWM range 255
  (\<open>LedEngine_new_255\<close> below); the same engine switched on; and then set to full white by
  \<open>setRaw\<close>.
\<close>

definition builtEngine :: LedEngine where
  "builtEngine =
    \<lparr>redPin_m = 12, greenPin_m = 13, bluePin_m = 14, warmPin_m = 4, coldPin_m = 5,
     pwmRange_m = 255, onOff_m = False,
     raw_m = \<lparr>R = 99 / 255, G = 56 / 255, B = 1 / 255\<rparr>,
     luv_m = unsetLuv, T_m = 1900,
     redUv_m = \<lparr>L = 100, u = 0.5535, v = 0.5170\<rparr>,
     greenUv_m = \<lparr>L = 100, u = 0.0373, v = 0.5856\<rparr>,
     blueUv_m = \<lparr>L = 100, u = 0.1679, v = 0.1153\<rparr>,
     redLum_m = 0.5, greenLum_m = 1.0, blueLum_m = 0.75, maxLum_m = 2.25,
     redToGreenFit_m = (2.9658, 0.0, 1.9658),
     greenToBlueFit_m = (1.3587, 0.0, 0.3587),
     blueToRedFit_m = (- 0.2121, 0.2121, 0.2121),
     sink = [AnalogWriteRange 255,
             PinModeOutput 12, AnalogWrite 12 0,
             PinModeOutput 13, AnalogWrite 13 0,
             PinModeOutput 14, AnalogWrite 14 0,
             PinModeOutput 4, AnalogWrite 4 0,
             PinModeOutput 5, AnalogWrite 5 0,
             AnalogWrite 12 0, AnalogWrite 13 0, AnalogWrite 14 0]\<rparr>"

definition litEngine :: LedEngine where
  "litEngine =
    builtEngine\<lparr>onOff_m := True, T_m := 65535,
                 sink := sink builtEngine @
                   [AnalogWrite 12 99, AnalogWrite 13 56, AnalogWrite 14 1]\<rparr>"

definition whiteEngine :: LedEngine where
  "whiteEngine =
    litEngine\<lparr>raw_m := \<lparr>R = 1, G = 1, B = 1\<rparr>,
               sink := sink litEngine @
                 [AnalogWrite 12 255, AnalogWrite 13 255, AnalogWrite 14 255]\<rparr>"

text \<open>\<open>calibrate\<close> called with the values of the default member initialisers.\<close>

definition recalibrateDefault :: "LedEngine \<Rightarrow> fault + LedEngine" where
  "recalibrateDefault s =
    calibrate s \<lparr>L = 100, u = 0.5535, v = 0.5170\<rparr> \<lparr>L = 100, u = 0.0373, v = 0.5856\<rparr>
      \<lparr>L = 100, u = 0.1679, v = 0.1153\<rparr> 0.5 1.0 0.75
      (2.9658, 0.0, 1.9658) (1.3587, 0.0, 0.3587) (- 0.2121, 0.2121, 0.2121)"

text \<open>
  \<^verbatim>\<open>calibrate\<close> called with the default values but for the green-to-blue fit, which is
  \<open>{-3, 1.5, -3}\<close>; and the engine this call leaves when made right after the
  constructor, \<open>k\<close> being the integer that the conversion of the NaN gave.
\<close>

definition recalibrateSkewed ::
    "(float_value \<Rightarrow> int) \<Rightarrow> (real \<Rightarrow> real) \<Rightarrow> LedEngine \<Rightarrow> fault + LedEngine" where
  "recalibrateSkewed invalid fl s =
    calibrate_float invalid fl s
      \<lparr>L = 100, u = 0.5535, v = 0.5170\<rparr> \<lparr>L = 100, u = 0.0373, v = 0.5856\<rparr>
      \<lparr>L = 100, u = 0.1679, v = 0.1153\<rparr> 0.5 1.0 0.75
      (2.9658, 0.0, 1.9658) (- 3, 1.5, - 3) (- 0.2121, 0.2121, 0.2121)"

definition skewedEngine :: "int \<Rightarrow> LedEngine" where
  "skewedEngine k =
    builtEngine\<lparr>raw_m := \<lparr>R = real_of_int k / 255, G = real_of_int k / 255,
                            B = real_of_int k / 255\<rparr>,
                 greenToBlueFit_m := (- 3, 1.5, - 3)\<rparr>"


section \<open>Properties of the raw projector\<close>

lemma duty_eq: "duty s x = static_cast_int (limit01 x * u16_to_real (pwmRange_m s) + 0.5)"
  by (simp add: duty_def duty_rounded_def)

lemma dutyWrites_eq:
  "dutyWrites s raw =
    [AnalogWrite (redPin_m s) (duty s (R raw)),
     AnalogWrite (greenPin_m s) (duty s (G raw)),
     AnalogWrite (bluePin_m s) (duty s (B raw))]"
  by (simp add: dutyWrites_def dutyWrites_rounded_def duty_def)

lemma setOnOff_eq:
  "setOnOff s onOff =
    (let s1 = s\<lparr>onOff_m := onOff\<rparr>
     in if onOff_m s1 then setRaw s1 (getRaw s1)
        else Inr (s1\<lparr>sink := sink s1 @ [AnalogWrite (redPin_m s1) 0,
                                          AnalogWrite (greenPin_m s1) 0,
                                          AnalogWrite (bluePin_m s1) 0]\<rparr>))"
  by (simp add: setOnOff_def setOnOff_rounded_def setRaw_def Let_def)

lemma u16_to_real_nonneg: "0 \<le> u16_to_real w"
  by (simp add: u16_to_real_def del: of_nat_unat)

lemma u16_to_real_eq_0: "u16_to_real w = 0 \<longleftrightarrow> w = 0"
  by (simp add: u16_to_real_def unat_eq_0 del: of_nat_unat)

lemma u16_to_real_pos: "w \<noteq> 0 \<Longrightarrow> 0 < u16_to_real w"
  using u16_to_real_nonneg [of w] u16_to_real_eq_0 [of w] by linarith

lemma limit01_range: "0 \<le> limit01 x \<and> limit01 x \<le> 1"
  by (simp add: limit01_def Let_def)

lemma limit01_id: "0 \<le> x \<Longrightarrow> x \<le> 1 \<Longrightarrow> limit01 x = x"
  by (simp add: limit01_def Let_def)

lemma duty_range:
  "0 \<le> duty s x \<and> real_of_int (duty s x) \<le> u16_to_real (pwmRange_m s)"
proof -
  define n where "n = u16_to_real (pwmRange_m s)"
  obtain k :: nat where k: "n = real k"
    by (auto simp: n_def u16_to_real_def simp del: of_nat_unat)
  have a: "0 \<le> limit01 x" and b: "limit01 x \<le> 1"
    using limit01_range by auto
  have n0: "0 \<le> n" by (simp add: k)
  have lo: "0 \<le> limit01 x * n + 0.5"
    using a n0 by simp
  have "limit01 x * n \<le> 1 * n"
    using b n0 by (rule mult_right_mono)
  then have hi: "limit01 x * n + 0.5 < real_of_int (int k + 1)" by (simp add: k)
  have "\<lfloor>limit01 x * n + 0.5\<rfloor> < int k + 1"
    using hi by (simp only: floor_less_iff)
  then have up: "real_of_int \<lfloor>limit01 x * n + 0.5\<rfloor> \<le> n"
    by (simp add: k)
  have "0 \<le> \<lfloor>limit01 x * n + 0.5\<rfloor>"
    using lo by simp
  then show ?thesis
    using lo up by (simp add: duty_eq static_cast_int_def n_def)
qed

lemma duty_of_quantised:
  assumes "pwmRange_m s \<noteq> 0" and "0 \<le> k"
    and "real_of_int k \<le> u16_to_real (pwmRange_m s)"
  shows "duty s (real_of_int k / u16_to_real (pwmRange_m s)) = k"
proof -
  define n where "n = u16_to_real (pwmRange_m s)"
  have n: "0 < n"
    using assms(1) by (simp add: n_def u16_to_real_pos)
  have q0: "0 \<le> real_of_int k / n"
    using assms(2) n by simp
  have q1: "real_of_int k / n \<le> 1"
    using assms(3) n by (simp add: divide_le_eq n_def)
  have lim: "limit01 (real_of_int k / n) = real_of_int k / n"
    using q0 q1 by (rule limit01_id)
  have undo: "real_of_int k / n * n = real_of_int k"
    using n by simp
  have fl: "\<lfloor>real_of_int k + 0.5\<rfloor> = k"
    by (simp add: floor_unique)
  have arg: "limit01 (real_of_int k / n) * n + 0.5 = real_of_int k + 0.5"
    by (simp only: lim undo)
  have "static_cast_int (real_of_int k + 0.5) = k"
    using assms(2) fl by (simp add: static_cast_int_def)
  then have "static_cast_int (limit01 (real_of_int k / n) * n + 0.5) = k"
    by (simp only: arg)
  then show ?thesis
    by (simp add: duty_eq n_def)
qed

lemma setRaw_result:
  "setRaw s raw =
    (if pwmRange_m s = 0 then Inl DivisionByZero
     else Inr (s\<lparr>sink := sink s @ (if onOff_m s
                                   then [AnalogWrite (redPin_m s) (duty s (R raw)),
                                         AnalogWrite (greenPin_m s) (duty s (G raw)),
                                         AnalogWrite (bluePin_m s) (duty s (B raw))]
                                   else []),
                  raw_m := \<lparr>R = real_of_int (duty s (R raw)) / u16_to_real (pwmRange_m s),
                             G = real_of_int (duty s (G raw)) / u16_to_real (pwmRange_m s),
                             B = real_of_int (duty s (B raw)) / u16_to_real (pwmRange_m s)\<rparr>,
                  luv_m := \<lparr>L = - 1, u = - 1, v = - 1\<rparr>,
                  T_m := 65535\<rparr>))"
  by (simp add: setRaw_def setRaw_rounded_def duty_eq Let_def u16_to_real_eq_0)

section \<open>Sequencing\<close>

lemma bind_fault_Inr: "bind_fault m f = Inr y \<longleftrightarrow> (\<exists>x. m = Inr x \<and> f x = Inr y)"
  by (cases m) (simp_all add: bind_fault_def)

lemma bind_fault_simps:
  "bind_fault (Inr x) f = f x"
  "bind_fault (Inl e) f = Inl e"
  by (simp_all add: bind_fault_def)

section \<open>What \<open>setRaw\<close> leaves behind\<close>

lemma setRaw_Inr:
  assumes "setRaw s raw = Inr s'"
  shows "pwmRange_m s \<noteq> 0"
    and "s' = s\<lparr>sink := sink s @ (if onOff_m s then dutyWrites s raw else []),
                raw_m := \<lparr>R = real_of_int (duty s (R raw)) / u16_to_real (pwmRange_m s),
                           G = real_of_int (duty s (G raw)) / u16_to_real (pwmRange_m s),
                           B = real_of_int (duty s (B raw)) / u16_to_real (pwmRange_m s)\<rparr>,
                luv_m := unsetLuv,
                T_m := 65535\<rparr>"
  using assms by (simp_all add: setRaw_result dutyWrites_eq unsetLuv_def split: if_splits)

lemma setRaw_total:
  "pwmRange_m s \<noteq> 0 \<Longrightarrow> \<exists>s'. setRaw s raw = Inr s'"
  by (simp add: setRaw_result)

lemma setRaw_caches:
  assumes "setRaw s raw = Inr s'"
  shows "luv_m s' = unsetLuv" and "T_m s' = 65535"
  by (simp_all add: setRaw_Inr(2) [OF assms])

section \<open>The setters end in \<open>setRaw\<close>\<close>

lemma setCie1976Ucs_Inr:
  assumes "setCie1976Ucs s target = Inr s'"
  shows "\<exists>s2 raw. setRaw s2 raw = Inr s' \<and> pwmRange_m s2 = pwmRange_m s"
  using assms
  by (auto simp: setCie1976Ucs_def Let_def bind_fault_Inr split: if_splits)

lemma setCie1976Ucs_caches:
  assumes "setCie1976Ucs s target = Inr s'"
  shows "luv_m s' = unsetLuv" and "T_m s' = 65535"
  using setCie1976Ucs_Inr [OF assms] setRaw_caches by blast+

lemma setColorTemperature_Inr:
  assumes "setColorTemperature s lightness T = Inr s'"
  shows "\<exists>s'' target. setCie1976Ucs s target = Inr s'' \<and> s' = s''\<lparr>T_m := T\<rparr>"
  using assms
  by (auto simp: setColorTemperature_def Let_def bind_fault_Inr)

section \<open>The perceptual cache is written before \<open>setRaw\<close> clears it\<close>

lemma findCoefficients_luv_m [simp]: "findCoefficients (s\<lparr>luv_m := x\<rparr>) target = findCoefficients s target"
  by (simp add: findCoefficients_def)

lemma scaleToTargetLuma_luv_m [simp]:
  "scaleToTargetLuma (s\<lparr>luv_m := x\<rparr>) target raw = scaleToTargetLuma s target raw"
  by (simp add: scaleToTargetLuma_def)

lemma setRaw_luv_m [simp]: "setRaw (s\<lparr>luv_m := x\<rparr>) raw = setRaw s raw"
  by (simp add: setRaw_result duty_eq)

lemma setCie1976Ucs_eq:
  "setCie1976Ucs s target =
    bind_fault (scaledRaw s target) (\<lambda>raw. setRaw s (limitToMaxPower raw))"
proof (cases "findCoefficients s target")
  case (Inl e)
  then show ?thesis
    by (simp add: setCie1976Ucs_def scaledRaw_def Let_def bind_fault_simps)
next
  case (Inr c)
  then show ?thesis
    by (cases "scaleToTargetLuma s target c")
      (simp_all add: setCie1976Ucs_def scaledRaw_def Let_def bind_fault_simps)
qed

lemma setColorTemperature_eq:
  "setColorTemperature s lightness T =
    bind_fault
      (setCie1976Ucs s \<lparr>L = (if lightness > 0 then lightness else L (luv_m s)),
                         u = u_numerator (zscore T) / u_denominator (zscore T),
                         v = v_numerator (zscore T) / v_denominator (zscore T)\<rparr>)
      (\<lambda>s'. Inr (s'\<lparr>T_m := T\<rparr>))"
  by (simp add: setColorTemperature_def Let_def)

lemma calibrate_after_unset:
  assumes "luv_m s = unsetLuv" and "T_m s = 65535"
  shows "calibrate s redUv greenUv blueUv redLum greenLum blueLum
           redToGreenFit greenToBlueFit blueToRedFit =
         setColorTemperature
           (storeCalibration s redUv greenUv blueUv redLum greenLum blueLum
              redToGreenFit greenToBlueFit blueToRedFit) (- 1) 65535"
  using assms by (simp add: calibrate_def Let_def storeCalibration_def unsetLuv_def)

section \<open>Recalibration after a colour temperature\<close>

lemma setColorTemperature_caches:
  assumes "setColorTemperature s lightness T = Inr s'"
  shows "luv_m s' = unsetLuv" and "T_m s' = T"
proof -
  obtain s'' target where a: "setCie1976Ucs s target = Inr s''" and b: "s' = s''\<lparr>T_m := T\<rparr>"
    using setColorTemperature_Inr [OF assms] by blast
  show "luv_m s' = unsetLuv"
    using setCie1976Ucs_caches(1) [OF a] by (simp add: b)
  show "T_m s' = T"
    by (simp add: b)
qed

lemma calibrate_after_setColorTemperature:
  assumes "setColorTemperature s lightness T = Inr s'"
  shows "calibrate s' redUv greenUv blueUv redLum greenLum blueLum
           redToGreenFit greenToBlueFit blueToRedFit =
         (if 1000 \<le> T
          then setColorTemperature
                 (storeCalibration s' redUv greenUv blueUv redLum greenLum blueLum
                    redToGreenFit greenToBlueFit blueToRedFit) (- 1) T
          else Inr (storeCalibration s' redUv greenUv blueUv redLum greenLum blueLum
                      redToGreenFit greenToBlueFit blueToRedFit))"
  using setColorTemperature_caches [OF assms]
  by (simp add: calibrate_def Let_def storeCalibration_def unsetLuv_def)

section \<open>Idempotence of the quantisation\<close>

lemma setRaw_again:
  assumes "setRaw s raw = Inr s1"
  shows "setRaw s1 (getRaw s1) =
          Inr (s1\<lparr>sink := sink s1 @ (if onOff_m s then dutyWrites s raw else [])\<rparr>)"
proof -
  note r = setRaw_Inr [OF assms]
  have n: "pwmRange_m s1 = pwmRange_m s" and o: "onOff_m s1 = onOff_m s"
    and p: "redPin_m s1 = redPin_m s" "greenPin_m s1 = greenPin_m s" "bluePin_m s1 = bluePin_m s"
    by (simp_all add: r(2))
  have same: "duty s1 x = duty s x" for x
    by (simp add: duty_eq n)
  have q: "duty s (real_of_int (duty s x) / u16_to_real (pwmRange_m s)) = duty s x" for x
    using duty_range [of s x] by (intro duty_of_quantised r(1)) auto
  have raw1: "raw_m s1 = \<lparr>R = real_of_int (duty s (R raw)) / u16_to_real (pwmRange_m s),
                           G = real_of_int (duty s (G raw)) / u16_to_real (pwmRange_m s),
                           B = real_of_int (duty s (B raw)) / u16_to_real (pwmRange_m s)\<rparr>"
    by (simp add: r(2))
  have c: "luv_m s1 = unsetLuv" "T_m s1 = 65535"
    using setRaw_caches [OF assms] by auto
  have "setRaw s1 (getRaw s1) =
          Inr (s1\<lparr>sink := sink s1 @ (if onOff_m s then dutyWrites s raw else []),
                   raw_m := raw_m s1, luv_m := luv_m s1, T_m := T_m s1\<rparr>)"
    unfolding c
    by (simp add: setRaw_result [of s1] getRaw_def raw1 same q n o p r(1) dutyWrites_eq
        unsetLuv_def)
  then show ?thesis by simp
qed

section \<open>The largest channel\<close>


section \<open>The colour temperature polynomials\<close>

lemma u_denominator_pos: "0 < u_denominator x"
proof -
  have "u_denominator x = (x + 4.813 / 2)\<^sup>2 + (5.933 - (4.813 / 2)\<^sup>2)"
    by (simp add: u_denominator_def Let_def power2_eq_square algebra_simps)
  moreover have "0 < (5.933::real) - (4.813 / 2)\<^sup>2"
    by (simp add: power2_eq_square)
  ultimately show ?thesis
    by (metis add_nonneg_pos zero_le_power2)
qed

lemma v_denominator_pos: "0 < v_denominator x"
proof -
  have "v_denominator x = (x + 4.323 / 2)\<^sup>2 + (5.485 - (4.323 / 2)\<^sup>2)"
    by (simp add: v_denominator_def Let_def power2_eq_square algebra_simps)
  moreover have "0 < (5.485::real) - (4.323 / 2)\<^sup>2"
    by (simp add: power2_eq_square)
  ultimately show ?thesis
    by (metis add_nonneg_pos zero_le_power2)
qed

lemma quartic_fourth_difference:
  "quartic a4 a3 a2 a1 a0 4 - 4 * quartic a4 a3 a2 a1 a0 3 + 6 * quartic a4 a3 a2 a1 a0 2
    - 4 * quartic a4 a3 a2 a1 a0 1 + quartic a4 a3 a2 a1 a0 0 = 24 * a4"
  by (simp add: quartic_def)

section \<open>The solver on the fits of the default calibration\<close>

text \<open>
  For a left-hand fit with \<open>p2 = 0\<close> (branch \<^verbatim>\<open>Lp1 >= 0\<close>) and for one with \<open>p2 = - p1\<close>
  (branch \<^verbatim>\<open>Lp1 < 0\<close>) the argument of \<^verbatim>\<open>sqrt\<close> is a square; the three default fits are
  of these two kinds.
\<close>

lemma dR_pos_radicand_square:
  "dR_pos_radicand PTu PTv P0u P0v P1u P1v P2u P2v Lp1 0 Lq1 =
    (Lq1 * cross P0u P0v P1u P1v PTu PTv - Lp1 * cross P0u P0v P2u P2v PTu PTv)\<^sup>2"
  unfolding dR_pos_radicand_def cross_def by algebra

lemma dR_neg_radicand_square:
  "dR_neg_radicand PTu PTv P0u P0v P1u P1v P2u P2v Lp1 (- Lp1) Lq1 =
    ((1 + Lq1) * cross P0u P0v P1u P1v PTu PTv + Lp1 * cross P0u P0v P2u P2v PTu PTv)\<^sup>2"
  unfolding dR_neg_radicand_def cross_def by algebra

lemma dR_pos_fit_p2_zero:
  "dR_pos PTu PTv P0u P0v P1u P1v P2u P2v Lp1 0 Lq1 =
    (if dR_pos_denominator PTu PTv P0u P0v P1u P1v P2u P2v Lp1 0 Lq1 = 0 then Inl DivisionByZero
     else Inr (1 - dR_pos_numerator
                 \<bar>Lq1 * cross P0u P0v P1u P1v PTu PTv - Lp1 * cross P0u P0v P2u P2v PTu PTv\<bar>
                 PTu PTv P0u P0v P1u P1v P2u P2v Lp1 0 Lq1
               / dR_pos_denominator PTu PTv P0u P0v P1u P1v P2u P2v Lp1 0 Lq1))"
  by (simp add: dR_pos_def Let_def dR_pos_radicand_square)

lemma dR_neg_fit_p2_minus_p1:
  "dR_neg PTu PTv P0u P0v P1u P1v P2u P2v Lp1 (- Lp1) Lq1 =
    (if dR_neg_denominator PTu PTv P0u P0v P1u P1v P2u P2v Lp1 (- Lp1) Lq1 = 0
     then Inl DivisionByZero
     else Inr (dR_neg_numerator
                 \<bar>(1 + Lq1) * cross P0u P0v P1u P1v PTu PTv
                   + Lp1 * cross P0u P0v P2u P2v PTu PTv\<bar>
                 PTu PTv P0u P0v P1u P1v P2u P2v Lp1 (- Lp1) Lq1
               / dR_neg_denominator PTu PTv P0u P0v P1u P1v P2u P2v Lp1 (- Lp1) Lq1))"
  by (simp add: dR_neg_def Let_def dR_neg_radicand_square)

text \<open>
  For any fit, the argument of \<^verbatim>\<open>sqrt\<close> in terms of the areas of the triangles that the
  target makes with the primaries.
\<close>

lemma dR_pos_radicand_areas:
  "dR_pos_radicand PTu PTv P0u P0v P1u P1v P2u P2v Lp1 Lp2 Lq1 =
    (Lq1 * cross P0u P0v P1u P1v PTu PTv - Lp1 * cross P0u P0v P2u P2v PTu PTv
      - Lp2 * cross P0u P0v P1u P1v P2u P2v)\<^sup>2
    + 4 * Lp2 * cross P0u P0v P2u P2v PTu PTv
        * (cross P0u P0v P1u P1v PTu PTv - Lp1 * cross P0u P0v P1u P1v P2u P2v)"
  unfolding dR_pos_radicand_def cross_def by algebra

lemma dR_neg_radicand_areas:
  "dR_neg_radicand PTu PTv P0u P0v P1u P1v P2u P2v Lp1 Lp2 Lq1 =
    ((1 + Lq1) * cross P0u P0v P1u P1v PTu PTv + Lp1 * cross P0u P0v P2u P2v PTu PTv
      - (Lp1 + Lp2) * cross P0u P0v P1u P1v P2u P2v)\<^sup>2
    - 4 * (Lp1 + Lp2) * cross P0u P0v P2u P2v PTu PTv
        * (cross P0u P0v P1u P1v PTu PTv - Lp1 * cross P0u P0v P1u P1v P2u P2v)"
  unfolding dR_neg_radicand_def cross_def by algebra

text \<open>
  With such a fit the argument of \<^verbatim>\<open>sqrt\<close> is exactly zero when the target is the primary
  \<open>P0\<close> itself: there the sign of what the source computes in \<^verbatim>\<open>double\<close> is a matter of
  rounding.
\<close>

lemma radicand_zero_at_primary:
  "0 \<le> at0 fit \<Longrightarrow> at1 fit = 0 \<Longrightarrow> radicand P0 P0 P1 P2 fit = 0"
  "at0 fit < 0 \<Longrightarrow> at1 fit = - at0 fit \<Longrightarrow> radicand P0 P0 P1 P2 fit = 0"
proof -
  show "radicand P0 P0 P1 P2 fit = 0" if "0 \<le> at0 fit" and "at1 fit = 0"
    using that by (simp add: radicand_def dR_pos_radicand_square cross_def)
  show "radicand P0 P0 P1 P2 fit = 0" if "at0 fit < 0" and "at1 fit = - at0 fit"
    using that by (simp add: radicand_def dR_neg_radicand_square cross_def)
qed

section \<open>Runs on the default calibration, PWM range 255\<close>

lemma defaultCalibration_fields:
  assumes "hasDefaultCalibration s"
  shows "redUv_m s = \<lparr>L = 100, u = 1107 / 2000, v = 517 / 1000\<rparr>"
    and "greenUv_m s = \<lparr>L = 100, u = 373 / 10000, v = 366 / 625\<rparr>"
    and "blueUv_m s = \<lparr>L = 100, u = 1679 / 10000, v = 1153 / 10000\<rparr>"
    and "redLum_m s = 1 / 2" and "greenLum_m s = 1" and "blueLum_m s = 3 / 4"
    and "maxLum_m s = 9 / 4"
    and "redToGreenFit_m s = (14829 / 5000, 0, 9829 / 5000)"
    and "greenToBlueFit_m s = (13587 / 10000, 0, 3587 / 10000)"
    and "blueToRedFit_m s = (- (2121 / 10000), 2121 / 10000, 2121 / 10000)"
  using assms by (simp_all add: hasDefaultCalibration_def)

lemma duty_255I:
  assumes "pwmRange_m s = 255" and "0 \<le> x" and "x \<le> 1"
    and "2 * real_of_int k - 1 \<le> 510 * x" and "510 * x < 2 * real_of_int k + 1"
  shows "duty s x = k"
proof -
  have "limit01 x = x"
    using assms(2,3) by (rule limit01_id)
  moreover have "\<lfloor>x * 255 + 1 / 2\<rfloor> = k"
    using assms(4,5) by (intro floor_unique) simp_all
  moreover have "0 \<le> x * 255 + 1 / 2"
    using assms(2) by simp
  ultimately show ?thesis
    by (simp add: duty_eq static_cast_int_def assms(1) u16_to_real_def)
qed

lemma zscore_1900: "zscore 1900 = (- (3600 / 2599))"
  by (simp add: zscore_def u16_to_real_def)

lemma warmWhite_eq:
  "warmWhite l = \<lparr>L = l, u = 6518458745373 / 20802087064667,
                  v = 34821112819578219 / 64591881344284285\<rparr>"
  by (simp add: warmWhite_def zscore_1900 u_numerator_def u_denominator_def v_numerator_def
      v_denominator_def Let_def)

lemma warmWhite_L: "L (warmWhite l) = l"
  by (simp add: warmWhite_def)

lemma findCoefficients_warmWhite:
  assumes "hasDefaultCalibration s"
  shows "findCoefficients s (warmWhite l) =
    Inr \<lparr>R = 51563033462285670111683868118616788536147 /
              80926074715905777604045892054908144048622,
         G = 6256503387748310965787098226727007718805 / 17463116645629869103507177080382887606478,
         B = 164841994274710110674951016729411426495 / 36097185549900615210020864264083090606013\<rparr>"
  unfolding findCoefficients_def findCoefficient_m_def warmWhite_eq
  by (simp add: defaultCalibration_fields [OF assms] Let_def at0_def at1_def at2_def
      bind_fault_simps dR_pos_fit_p2_zero
      dR_neg_fit_p2_minus_p1 [of _ _ _ _ _ _ _ _ "- (2121 / 10000)", simplified]
      dR_pos_numerator_def dR_pos_denominator_def dR_neg_numerator_def dR_neg_denominator_def
      cross_def)

lemma scaledRaw_warm50:
  assumes "hasDefaultCalibration s"
  shows "scaledRaw s (warmWhite 50) =
    Inr \<lparr>R = 842775972055120948788178783803553743175334514336425548055574829648070486531466752067900398302159681479869490402217455731661 /
              2171234412275536416319209051186708700119889249470338366219226291899042674166705861222333159983048205878026298871728602458048,
         G = 473884049412728572961416488160210190578949206321897099901003523840872745114473200553057249660010301370614365194381321851035 /
              2171234412275536416319209051186708700119889249470338366219226291899042674166705861222333159983048205878026298871728602458048,
         B = 3020137280306408036461868029519008152637676416631368917515740334297702104778037339704111418979484554045751340290344996195 /
              1085617206137768208159604525593354350059944624735169183109613145949521337083352930611166579991524102939013149435864301229024\<rparr>"
  by (simp add: scaledRaw_def findCoefficients_warmWhite [OF assms] bind_fault_simps
      scaleToTargetLuma_def defaultCalibration_fields [OF assms] Let_def warmWhite_L)

lemma limitToMaxPower_warm50:
  "limitToMaxPower
     \<lparr>R = 842775972055120948788178783803553743175334514336425548055574829648070486531466752067900398302159681479869490402217455731661 /
           2171234412275536416319209051186708700119889249470338366219226291899042674166705861222333159983048205878026298871728602458048,
      G = 473884049412728572961416488160210190578949206321897099901003523840872745114473200553057249660010301370614365194381321851035 /
           2171234412275536416319209051186708700119889249470338366219226291899042674166705861222333159983048205878026298871728602458048,
      B = 3020137280306408036461868029519008152637676416631368917515740334297702104778037339704111418979484554045751340290344996195 /
           1085617206137768208159604525593354350059944624735169183109613145949521337083352930611166579991524102939013149435864301229024\<rparr> =
   \<lparr>R = 842775972055120948788178783803553743175334514336425548055574829648070486531466752067900398302159681479869490402217455731661 /
         2171234412275536416319209051186708700119889249470338366219226291899042674166705861222333159983048205878026298871728602458048,
    G = 473884049412728572961416488160210190578949206321897099901003523840872745114473200553057249660010301370614365194381321851035 /
         2171234412275536416319209051186708700119889249470338366219226291899042674166705861222333159983048205878026298871728602458048,
    B = 3020137280306408036461868029519008152637676416631368917515740334297702104778037339704111418979484554045751340290344996195 /
         1085617206137768208159604525593354350059944624735169183109613145949521337083352930611166579991524102939013149435864301229024\<rparr>"
  by (simp add: limitToMaxPower_def maxRaw_def Let_def)

lemma duty_warm50:
  assumes "pwmRange_m s = 255"
  shows "duty s (842775972055120948788178783803553743175334514336425548055574829648070486531466752067900398302159681479869490402217455731661 /
                    2171234412275536416319209051186708700119889249470338366219226291899042674166705861222333159983048205878026298871728602458048) = 99"
    and "duty s (473884049412728572961416488160210190578949206321897099901003523840872745114473200553057249660010301370614365194381321851035 /
                  2171234412275536416319209051186708700119889249470338366219226291899042674166705861222333159983048205878026298871728602458048) = 56"
    and "duty s (3020137280306408036461868029519008152637676416631368917515740334297702104778037339704111418979484554045751340290344996195 /
                  1085617206137768208159604525593354350059944624735169183109613145949521337083352930611166579991524102939013149435864301229024) = 1"
  by (rule duty_255I [OF assms]; simp)+

lemma setCie1976Ucs_warm50:
  assumes "hasDefaultCalibration s" and "pwmRange_m s = 255"
  shows "setCie1976Ucs s (warmWhite 50) =
    Inr (s\<lparr>sink := sink s @ (if onOff_m s
                                 then [AnalogWrite (redPin_m s) 99,
                                       AnalogWrite (greenPin_m s) 56,
                                       AnalogWrite (bluePin_m s) 1]
                                 else []),
           raw_m := \<lparr>R = 33 / 85, G = 56 / 255, B = 1 / 255\<rparr>,
           luv_m := unsetLuv,
           T_m := 65535\<rparr>)"
  by (simp add: setCie1976Ucs_eq scaledRaw_warm50 [OF assms(1)] bind_fault_simps
      limitToMaxPower_warm50 setRaw_result assms(2) duty_warm50 [OF assms(2)] u16_to_real_def
      unsetLuv_def)

lemma scaledRaw_warmUnset:
  assumes "hasDefaultCalibration s"
  shows "scaledRaw s (warmWhite (- 1)) =
    Inr \<lparr>R = 870636334767686930566300396491274528073692680099613169478899617405031494350688793458574791634462480867633771076670925342625 /
              191068628280247204636090396504430365610550253953389776227291913687115755326670115787565318078508242117266314300712117016308224,
         G = 489549637823066707604769099339060114234451659423447417253102813885199116853794628670513687665299898110138807018988968854375 /
              191068628280247204636090396504430365610550253953389776227291913687115755326670115787565318078508242117266314300712117016308224,
         B = 3119976529242157062460607468511372058509996298172901774293120180059609612374005516223255598119302225253875351539612599375 /
              95534314140123602318045198252215182805275126976694888113645956843557877663335057893782659039254121058633157150356058508154112\<rparr>"
  by (simp add: scaledRaw_def findCoefficients_warmWhite [OF assms] bind_fault_simps
      scaleToTargetLuma_def defaultCalibration_fields [OF assms] Let_def warmWhite_L)

lemma limitToMaxPower_warmUnset:
  "limitToMaxPower
     \<lparr>R = 870636334767686930566300396491274528073692680099613169478899617405031494350688793458574791634462480867633771076670925342625 /
           191068628280247204636090396504430365610550253953389776227291913687115755326670115787565318078508242117266314300712117016308224,
      G = 489549637823066707604769099339060114234451659423447417253102813885199116853794628670513687665299898110138807018988968854375 /
           191068628280247204636090396504430365610550253953389776227291913687115755326670115787565318078508242117266314300712117016308224,
      B = 3119976529242157062460607468511372058509996298172901774293120180059609612374005516223255598119302225253875351539612599375 /
           95534314140123602318045198252215182805275126976694888113645956843557877663335057893782659039254121058633157150356058508154112\<rparr> =
   \<lparr>R = 870636334767686930566300396491274528073692680099613169478899617405031494350688793458574791634462480867633771076670925342625 /
         191068628280247204636090396504430365610550253953389776227291913687115755326670115787565318078508242117266314300712117016308224,
    G = 489549637823066707604769099339060114234451659423447417253102813885199116853794628670513687665299898110138807018988968854375 /
         191068628280247204636090396504430365610550253953389776227291913687115755326670115787565318078508242117266314300712117016308224,
    B = 3119976529242157062460607468511372058509996298172901774293120180059609612374005516223255598119302225253875351539612599375 /
         95534314140123602318045198252215182805275126976694888113645956843557877663335057893782659039254121058633157150356058508154112\<rparr>"
  by (simp add: limitToMaxPower_def maxRaw_def Let_def)

lemma duty_warmUnset:
  assumes "pwmRange_m s = 255"
  shows "duty s (870636334767686930566300396491274528073692680099613169478899617405031494350688793458574791634462480867633771076670925342625 /
                    191068628280247204636090396504430365610550253953389776227291913687115755326670115787565318078508242117266314300712117016308224) = 1"
    and "duty s (489549637823066707604769099339060114234451659423447417253102813885199116853794628670513687665299898110138807018988968854375 /
                  191068628280247204636090396504430365610550253953389776227291913687115755326670115787565318078508242117266314300712117016308224) = 1"
    and "duty s (3119976529242157062460607468511372058509996298172901774293120180059609612374005516223255598119302225253875351539612599375 /
                  95534314140123602318045198252215182805275126976694888113645956843557877663335057893782659039254121058633157150356058508154112) = 0"
  by (rule duty_255I [OF assms]; simp)+

lemma setCie1976Ucs_warmUnset:
  assumes "hasDefaultCalibration s" and "pwmRange_m s = 255"
  shows "setCie1976Ucs s (warmWhite (- 1)) =
    Inr (s\<lparr>sink := sink s @ (if onOff_m s
                                 then [AnalogWrite (redPin_m s) 1,
                                       AnalogWrite (greenPin_m s) 1,
                                       AnalogWrite (bluePin_m s) 0]
                                 else []),
           raw_m := \<lparr>R = 1 / 255, G = 1 / 255, B = 0\<rparr>,
           luv_m := unsetLuv,
           T_m := 65535\<rparr>)"
  by (simp add: setCie1976Ucs_eq scaledRaw_warmUnset [OF assms(1)] bind_fault_simps
      limitToMaxPower_warmUnset setRaw_result assms(2) duty_warmUnset [OF assms(2)] u16_to_real_def
      unsetLuv_def)





lemma zscore_65535: "zscore 65535 = 60035 / 2599"
  by (simp add: zscore_def u16_to_real_def)

lemma coldest_eq:
  "coldest l = \<lparr>L = l, u = 164350921396240819 / 913861314367113760,
                  v = 641373014042282879569 / 1166087557028201367200\<rparr>"
  by (simp add: coldest_def zscore_65535 u_numerator_def u_denominator_def v_numerator_def
      v_denominator_def Let_def)

lemma coldest_L: "L (coldest l) = l"
  by (simp add: coldest_def)

lemma findCoefficients_coldest:
  assumes "hasDefaultCalibration s"
  shows "findCoefficients s (coldest l) =
    Inr \<lparr>R = 1610694061811549569773301868987412071846991789 /
              4435775307290058778869581710356737310856515724,
         G = 601253167978089787782568833065519199643074795 /
              957198438241678326026530990232429368588103476,
         B = 8651772571943027950680436889109787428609960 /
              989291771422137784689254151643442106982358473\<rparr>"
  unfolding findCoefficients_def findCoefficient_m_def coldest_eq
  by (simp add: defaultCalibration_fields [OF assms] Let_def at0_def at1_def at2_def
      bind_fault_simps dR_pos_fit_p2_zero
      dR_neg_fit_p2_minus_p1 [of _ _ _ _ _ _ _ _ "- (2121 / 10000)", simplified]
      dR_pos_numerator_def dR_pos_denominator_def dR_neg_numerator_def dR_neg_denominator_def
      cross_def)

lemma scaledRaw_coldUnset:
  assumes "hasDefaultCalibration s"
  shows "scaledRaw s (coldest (- 1)) =
    Inr \<lparr>R = 183846421757830090597854423063971102609695401624336380335051569687373933433104331152541360441736445074695492377565418372330015558878771625 /
              84948372458153398489461757000691967278145873727607037219900321949024603460828212761982972237204905741779768900909424477246838706330684186752,
         G = 318029245771043933179834992931214349854714468239891366478354897406153667893403291685557709980237966424871225816889474469192632337414210625 /
              84948372458153398489461757000691967278145873727607037219900321949024603460828212761982972237204905741779768900909424477246838706330684186752,
         B = 138370140691841953482812845053251294931038465362532832592345902592654457507184101395109723168853739835655705748366465617078865770106875 /
              2654636639317293702795679906271623977442058553987719913121885060907018858150881648811967882412653304430617778153419514913963709572833880836\<rparr>"
  by (simp add: scaledRaw_def findCoefficients_coldest [OF assms] bind_fault_simps
      scaleToTargetLuma_def defaultCalibration_fields [OF assms] Let_def coldest_L)

lemma limitToMaxPower_coldUnset:
  "limitToMaxPower
     \<lparr>R = 183846421757830090597854423063971102609695401624336380335051569687373933433104331152541360441736445074695492377565418372330015558878771625 /
           84948372458153398489461757000691967278145873727607037219900321949024603460828212761982972237204905741779768900909424477246838706330684186752,
      G = 318029245771043933179834992931214349854714468239891366478354897406153667893403291685557709980237966424871225816889474469192632337414210625 /
           84948372458153398489461757000691967278145873727607037219900321949024603460828212761982972237204905741779768900909424477246838706330684186752,
      B = 138370140691841953482812845053251294931038465362532832592345902592654457507184101395109723168853739835655705748366465617078865770106875 /
           2654636639317293702795679906271623977442058553987719913121885060907018858150881648811967882412653304430617778153419514913963709572833880836\<rparr> =
   \<lparr>R = 183846421757830090597854423063971102609695401624336380335051569687373933433104331152541360441736445074695492377565418372330015558878771625 /
         84948372458153398489461757000691967278145873727607037219900321949024603460828212761982972237204905741779768900909424477246838706330684186752,
    G = 318029245771043933179834992931214349854714468239891366478354897406153667893403291685557709980237966424871225816889474469192632337414210625 /
         84948372458153398489461757000691967278145873727607037219900321949024603460828212761982972237204905741779768900909424477246838706330684186752,
    B = 138370140691841953482812845053251294931038465362532832592345902592654457507184101395109723168853739835655705748366465617078865770106875 /
         2654636639317293702795679906271623977442058553987719913121885060907018858150881648811967882412653304430617778153419514913963709572833880836\<rparr>"
  by (simp add: limitToMaxPower_def maxRaw_def Let_def)

lemma duty_coldUnset:
  assumes "pwmRange_m s = 255"
  shows "duty s (183846421757830090597854423063971102609695401624336380335051569687373933433104331152541360441736445074695492377565418372330015558878771625 /
                    84948372458153398489461757000691967278145873727607037219900321949024603460828212761982972237204905741779768900909424477246838706330684186752) = 1"
    and "duty s (318029245771043933179834992931214349854714468239891366478354897406153667893403291685557709980237966424871225816889474469192632337414210625 /
                  84948372458153398489461757000691967278145873727607037219900321949024603460828212761982972237204905741779768900909424477246838706330684186752) = 1"
    and "duty s (138370140691841953482812845053251294931038465362532832592345902592654457507184101395109723168853739835655705748366465617078865770106875 /
                  2654636639317293702795679906271623977442058553987719913121885060907018858150881648811967882412653304430617778153419514913963709572833880836) = 0"
  by (rule duty_255I [OF assms]; simp)+

lemma setCie1976Ucs_coldUnset:
  assumes "hasDefaultCalibration s" and "pwmRange_m s = 255"
  shows "setCie1976Ucs s (coldest (- 1)) =
    Inr (s\<lparr>sink := sink s @ (if onOff_m s
                                 then [AnalogWrite (redPin_m s) 1,
                                       AnalogWrite (greenPin_m s) 1,
                                       AnalogWrite (bluePin_m s) 0]
                                 else []),
           raw_m := \<lparr>R = 1 / 255, G = 1 / 255, B = 0\<rparr>,
           luv_m := unsetLuv,
           T_m := 65535\<rparr>)"
  by (simp add: setCie1976Ucs_eq scaledRaw_coldUnset [OF assms(1)] bind_fault_simps
      limitToMaxPower_coldUnset setRaw_result assms(2) duty_coldUnset [OF assms(2)] u16_to_real_def
      unsetLuv_def)

lemma setColorTemperature_1900:
  "setColorTemperature s lightness 1900 =
    bind_fault (setCie1976Ucs s (warmWhite (if lightness > 0 then lightness else L (luv_m s))))
      (\<lambda>s'. Inr (s'\<lparr>T_m := 1900\<rparr>))"
  by (simp add: setColorTemperature_eq warmWhite_def)

lemma setColorTemperature_65535:
  "setColorTemperature s lightness 65535 =
    bind_fault (setCie1976Ucs s (coldest (if lightness > 0 then lightness else L (luv_m s))))
      (\<lambda>s'. Inr (s'\<lparr>T_m := 65535\<rparr>))"
  by (simp add: setColorTemperature_eq coldest_def)

lemma storeCalibration_default:
  assumes "hasDefaultCalibration s"
  shows "storeCalibration s
           \<lparr>L = 100, u = 0.5535, v = 0.5170\<rparr> \<lparr>L = 100, u = 0.0373, v = 0.5856\<rparr>
           \<lparr>L = 100, u = 0.1679, v = 0.1153\<rparr> 0.5 1.0 0.75
           (2.9658, 0.0, 1.9658) (1.3587, 0.0, 0.3587) (- 0.2121, 0.2121, 0.2121) = s"
  by (simp add: storeCalibration_def defaultCalibration_fields [OF assms] at0_def at1_def
      at2_def)

lemma recalibrateDefault_eq:
  assumes "hasDefaultCalibration s"
  shows "recalibrateDefault s =
    (if T_m s \<ge> 1000 then setColorTemperature s (L (luv_m s)) (T_m s)
     else if L (luv_m s) \<ge> 0 then setCie1976Ucs s (luv_m s)
     else Inr s)"
  unfolding recalibrateDefault_def calibrate_def storeCalibration_default [OF assms] Let_def
  by (rule refl)

lemma builtEngine_calibration: "hasDefaultCalibration builtEngine"
  by (simp add: builtEngine_def hasDefaultCalibration_def)

lemma litEngine_calibration: "hasDefaultCalibration litEngine"
  by (simp add: litEngine_def builtEngine_def hasDefaultCalibration_def)

lemma whiteEngine_calibration: "hasDefaultCalibration whiteEngine"
  by (simp add: whiteEngine_def litEngine_def builtEngine_def hasDefaultCalibration_def)

lemma example_ranges:
  "pwmRange_m builtEngine = 255" "pwmRange_m litEngine = 255" "pwmRange_m whiteEngine = 255"
  by (simp_all add: whiteEngine_def litEngine_def builtEngine_def)

lemma LedEngine_new_255: "LedEngine_new 12 13 14 4 5 255 mem = Inr builtEngine"
proof -
  define s0 where "s0 = builtEngine\<lparr>raw_m := raw_m mem, luv_m := luv_m mem, T_m := T_m mem\<rparr>"
  have c: "hasDefaultCalibration s0" and n: "pwmRange_m s0 = 255"
    by (simp_all add: s0_def builtEngine_def hasDefaultCalibration_def)
  have off: "setOnOff
      \<lparr>redPin_m = 12, greenPin_m = 13, bluePin_m = 14, warmPin_m = 4, coldPin_m = 5,
       pwmRange_m = 255, onOff_m = onOff_m mem, raw_m = raw_m mem, luv_m = luv_m mem,
       T_m = T_m mem,
       redUv_m = \<lparr>L = 100, u = 0.5535, v = 0.5170\<rparr>,
       greenUv_m = \<lparr>L = 100, u = 0.0373, v = 0.5856\<rparr>,
       blueUv_m = \<lparr>L = 100, u = 0.1679, v = 0.1153\<rparr>,
       redLum_m = 0.5, greenLum_m = 1.0, blueLum_m = 0.75, maxLum_m = 2.25,
       redToGreenFit_m = (2.9658, 0.0, 1.9658),
       greenToBlueFit_m = (1.3587, 0.0, 0.3587),
       blueToRedFit_m = (- 0.2121, 0.2121, 0.2121),
       sink = [AnalogWriteRange 255,
               PinModeOutput 12, AnalogWrite 12 0,
               PinModeOutput 13, AnalogWrite 13 0,
               PinModeOutput 14, AnalogWrite 14 0,
               PinModeOutput 4, AnalogWrite 4 0,
               PinModeOutput 5, AnalogWrite 5 0]\<rparr> False = Inr s0"
    by (simp add: setOnOff_eq Let_def s0_def builtEngine_def)
  have "setColorTemperature s0 50 1900 = Inr builtEngine"
    by (simp add: setColorTemperature_1900 setCie1976Ucs_warm50 [OF c n] bind_fault_simps)
      (simp add: s0_def builtEngine_def)
  then show ?thesis
    unfolding LedEngine_new_def Let_def off bind_fault_simps .
qed

lemma builtEngine_warm50: "setCie1976Ucs builtEngine (warmWhite 50) = Inr (builtEngine\<lparr>T_m := 65535\<rparr>)"
  by (simp add: setCie1976Ucs_warm50 [OF builtEngine_calibration example_ranges(1)])
    (simp add: builtEngine_def)

lemma builtEngine_setColorTemperature: "setColorTemperature builtEngine 50 1900 = Inr builtEngine"
  by (simp add: setColorTemperature_1900 builtEngine_warm50 bind_fault_simps)
    (simp add: builtEngine_def)

lemma builtEngine_recalibrated:
  "recalibrateDefault builtEngine = setColorTemperature builtEngine (- 1) 1900"
  "recalibrateDefault builtEngine
    = Inr (builtEngine\<lparr>raw_m := \<lparr>R = 1 / 255, G = 1 / 255, B = 0\<rparr>\<rparr>)"
proof -
  have t: "T_m builtEngine = 1900" and l: "L (luv_m builtEngine) = - 1"
    by (simp_all add: builtEngine_def unsetLuv_def)
  show a: "recalibrateDefault builtEngine = setColorTemperature builtEngine (- 1) 1900"
    by (simp add: recalibrateDefault_eq [OF builtEngine_calibration] t l)
  have "setColorTemperature builtEngine (- 1) 1900
      = Inr (builtEngine\<lparr>raw_m := \<lparr>R = 1 / 255, G = 1 / 255, B = 0\<rparr>\<rparr>)"
    by (simp add: setColorTemperature_1900 l bind_fault_simps
        setCie1976Ucs_warmUnset [OF builtEngine_calibration example_ranges(1)])
      (simp add: builtEngine_def)
  then show "recalibrateDefault builtEngine
      = Inr (builtEngine\<lparr>raw_m := \<lparr>R = 1 / 255, G = 1 / 255, B = 0\<rparr>\<rparr>)"
    by (simp only: a)
qed

lemma duty_255_examples:
  assumes "pwmRange_m s = 255"
  shows "duty s (33 / 85) = 99" and "duty s (56 / 255) = 56" and "duty s (1 / 255) = 1"
    and "duty s 1 = 255"
  by (rule duty_255I [OF assms]; simp)+

lemma builtEngine_switched_on: "setOnOff builtEngine True = Inr litEngine"
  by (simp add: setOnOff_eq Let_def setRaw_result getRaw_def builtEngine_def litEngine_def
      duty_255_examples u16_to_real_def unsetLuv_def)

lemma litEngine_white: "setRaw litEngine \<lparr>R = 1, G = 1, B = 1\<rparr> = Inr whiteEngine"
  by (simp add: setRaw_result whiteEngine_def litEngine_def builtEngine_def
      duty_255_examples u16_to_real_def unsetLuv_def)

lemma whiteEngine_recalibrated:
  "recalibrateDefault whiteEngine =
    Inr (whiteEngine\<lparr>sink := sink whiteEngine @
                         [AnalogWrite 12 1, AnalogWrite 13 1, AnalogWrite 14 0],
                     raw_m := \<lparr>R = 1 / 255, G = 1 / 255, B = 0\<rparr>\<rparr>)"
proof -
  have t: "T_m whiteEngine = 65535" and l: "L (luv_m whiteEngine) = - 1"
    by (simp_all add: whiteEngine_def litEngine_def builtEngine_def unsetLuv_def)
  show ?thesis
    by (simp add: recalibrateDefault_eq [OF whiteEngine_calibration] t l
        setColorTemperature_65535 bind_fault_simps
        setCie1976Ucs_coldUnset [OF whiteEngine_calibration example_ranges(3)])
      (simp add: whiteEngine_def litEngine_def builtEngine_def)
qed

text \<open>
  At the two targets where the solver is evaluated, the argument of \<^verbatim>\<open>sqrt\<close> is well away
  from zero in each of the three calls.
\<close>

lemma solver_margins:
  assumes "hasDefaultCalibration s"
  shows "1 / 200 \<le> radicand (warmWhite l) (redUv_m s) (greenUv_m s) (blueUv_m s)
                      (greenToBlueFit_m s)"
    and "1 / 200 \<le> radicand (warmWhite l) (greenUv_m s) (blueUv_m s) (redUv_m s)
                      (blueToRedFit_m s)"
    and "1 / 200 \<le> radicand (warmWhite l) (blueUv_m s) (redUv_m s) (greenUv_m s)
                      (redToGreenFit_m s)"
    and "1 / 200 \<le> radicand (coldest l) (redUv_m s) (greenUv_m s) (blueUv_m s)
                      (greenToBlueFit_m s)"
    and "1 / 200 \<le> radicand (coldest l) (greenUv_m s) (blueUv_m s) (redUv_m s)
                      (blueToRedFit_m s)"
    and "1 / 200 \<le> radicand (coldest l) (blueUv_m s) (redUv_m s) (greenUv_m s)
                      (redToGreenFit_m s)"
  unfolding radicand_def warmWhite_eq coldest_eq
  by (simp_all add: defaultCalibration_fields [OF assms] at0_def at1_def at2_def
      dR_pos_radicand_square
      dR_neg_radicand_square [of _ _ _ _ _ _ _ _ "- (2121 / 10000)", simplified]
      cross_def power2_eq_square)

section \<open>Duty cycles depend on the PWM range only\<close>

lemma duty_updates [simp]:
  "duty (s\<lparr>sink := k\<rparr>) x = duty s x"
  "duty (s\<lparr>raw_m := a\<rparr>) x = duty s x"
  "duty (s\<lparr>luv_m := b\<rparr>) x = duty s x"
  "duty (s\<lparr>T_m := c\<rparr>) x = duty s x"
  "duty (s\<lparr>onOff_m := d\<rparr>) x = duty s x"
  by (simp_all add: duty_eq)

lemma duty_requantised:
  assumes "pwmRange_m s \<noteq> 0"
  shows "duty s (real_of_int (duty s x) / u16_to_real (pwmRange_m s)) = duty s x"
  using duty_range [of s x] by (intro duty_of_quantised assms) auto

section \<open>The quantisation under rounding\<close>

lemma u16_to_real_nat: "\<exists>k::nat. u16_to_real w = real k \<and> k \<le> 65535"
proof -
  have "unat w < 2 ^ 16"
    using unsigned_less [of w, where 'a = nat] by simp
  then show ?thesis
    by (intro exI [of _ "unat w"]) (simp add: u16_to_real_def del: of_nat_unat)
qed

lemma float_rounding_mono:
  assumes "float_rounding fl" and "x \<le> y"
  shows "fl x \<le> fl y"
  using assms by (simp add: float_rounding_def)

lemma float_rounding_int:
  assumes "float_rounding fl" and "\<bar>n\<bar> \<le> 2 ^ 24"
  shows "fl (real_of_int n) = real_of_int n"
  using assms by (simp add: float_rounding_def)

lemma float_rounding_nat:
  assumes "float_rounding fl" and "k \<le> 65535"
  shows "fl (real k) = real k"
proof -
  have "\<bar>int k\<bar> \<le> 2 ^ 24"
    using assms(2) by simp
  then have "fl (real_of_int (int k)) = real_of_int (int k)"
    by (rule float_rounding_int [OF assms(1)])
  then show ?thesis by simp
qed

lemma float_rounding_bounds:
  assumes "float_rounding fl" and "1 / 2 ^ 126 \<le> x" and "x \<le> 2 ^ 127"
  shows "x - x / 2 ^ 24 \<le> fl x" and "fl x \<le> x + x / 2 ^ 24"
proof -
  have pos: "0 < x"
    using assms(2) by (rule less_le_trans [rotated]) simp
  have "1 / 2 ^ 126 \<le> \<bar>x\<bar> \<and> \<bar>x\<bar> \<le> 2 ^ 127"
    using assms(2,3) pos by simp
  then have "\<bar>fl x - x\<bar> \<le> \<bar>x\<bar> / 2 ^ 24"
    using assms(1) unfolding float_rounding_def by blast
  then have "\<bar>fl x - x\<bar> \<le> x / 2 ^ 24"
    using pos by simp
  then show "x - x / 2 ^ 24 \<le> fl x" and "fl x \<le> x + x / 2 ^ 24"
    by linarith+
qed

lemma float_rounding_unit:
  assumes "float_rounding fl" and "0 \<le> x" and "x \<le> real k" and "k \<le> 65535"
  shows "0 \<le> fl x" and "fl x \<le> real k"
proof -
  have "fl (real_of_int 0) = real_of_int 0"
    by (rule float_rounding_int [OF assms(1)]) simp
  then have "fl 0 = 0" by simp
  then show "0 \<le> fl x"
    using float_rounding_mono [OF assms(1,2)] by simp
  show "fl x \<le> real k"
    using float_rounding_mono [OF assms(1,3)] float_rounding_nat [OF assms(1,4)] by simp
qed

lemma duty_rounded_range:
  assumes "float_rounding fl"
  shows "0 \<le> duty_rounded fl s x"
    and "real_of_int (duty_rounded fl s x) \<le> u16_to_real (pwmRange_m s)"
proof -
  obtain k :: nat where k: "u16_to_real (pwmRange_m s) = real k" and k16: "k \<le> 65535"
    using u16_to_real_nat by blast
  define z where "z = limit01 x * real k"
  have z0: "0 \<le> z" and zk: "z \<le> real k"
    using limit01_range [of x] by (simp_all add: z_def mult_left_le_one_le)
  have lo: "0 \<le> fl z" and hi: "fl z \<le> real k"
    using float_rounding_unit [OF assms z0 zk k16] by auto
  have "fl z + 1 / 2 < real_of_int (int k + 1)"
    using hi by simp
  then have "\<lfloor>fl z + 1 / 2\<rfloor> < int k + 1"
    by (simp only: floor_less_iff)
  then have up: "real_of_int \<lfloor>fl z + 1 / 2\<rfloor> \<le> real k"
    by simp
  have nn: "0 \<le> \<lfloor>fl z + 1 / 2\<rfloor>"
    using lo by simp
  have d: "duty_rounded fl s x = \<lfloor>fl z + 1 / 2\<rfloor>"
    using lo by (simp add: duty_rounded_def static_cast_int_def k z_def)
  show "0 \<le> duty_rounded fl s x"
    using nn by (simp add: d)
  show "real_of_int (duty_rounded fl s x) \<le> u16_to_real (pwmRange_m s)"
    using up by (simp add: d k)
qed

lemma stored_in_unit:
  assumes "float_rounding fl" and "pwmRange_m s \<noteq> 0"
    and "0 \<le> p" and "real_of_int p \<le> u16_to_real (pwmRange_m s)"
  shows "0 \<le> fl (real_of_int p / u16_to_real (pwmRange_m s))"
    and "fl (real_of_int p / u16_to_real (pwmRange_m s)) \<le> 1"
proof -
  have pos: "0 < u16_to_real (pwmRange_m s)"
    using assms(2) by (rule u16_to_real_pos)
  have a: "0 \<le> real_of_int p / u16_to_real (pwmRange_m s)"
    using assms(3) pos by simp
  have b: "real_of_int p / u16_to_real (pwmRange_m s) \<le> real 1"
    using assms(4) pos by (simp add: divide_le_eq)
  show "0 \<le> fl (real_of_int p / u16_to_real (pwmRange_m s))"
    and "fl (real_of_int p / u16_to_real (pwmRange_m s)) \<le> 1"
    using float_rounding_unit [OF assms(1) a b] by simp_all
qed

lemma duty_rounded_of_stored:
  assumes "float_rounding fl" and "pwmRange_m s \<noteq> 0"
    and "0 \<le> p" and "real_of_int p \<le> u16_to_real (pwmRange_m s)"
  shows "duty_rounded fl s (fl (real_of_int p / u16_to_real (pwmRange_m s))) = p"
proof -
  obtain k :: nat where k: "u16_to_real (pwmRange_m s) = real k" and k16: "k \<le> 65535"
    using u16_to_real_nat by blast
  have kpos: "0 < real k"
    using u16_to_real_pos [OF assms(2)] by (simp add: k)
  have k1: "1 \<le> real k"
    using kpos by simp
  have kreal: "real k \<le> 65535"
    using k16 by simp
  define e :: real where "e = 1 / 2 ^ 24"
  define q where "q = fl (real_of_int p / real k)"
  have q01: "0 \<le> q" "q \<le> 1"
    using stored_in_unit [OF assms] by (simp_all add: q_def k)
  have c: "limit01 q = q"
    using q01 by (rule limit01_id)
  have pk: "real_of_int p \<le> real k"
    using assms(4) by (simp add: k)
  have "\<lfloor>fl (q * real k) + 1 / 2\<rfloor> = p \<and> 0 \<le> fl (q * real k) + 1 / 2"
  proof (cases "p = 0")
    case True
    have "fl (real_of_int 0) = real_of_int 0"
      by (rule float_rounding_int [OF assms(1)]) simp
    then have "fl 0 = 0" by simp
    then show ?thesis
      using True by (simp add: q_def)
  next
    case False
    then have p1: "1 \<le> real_of_int p"
      using assms(3) by linarith
    have frac_lo: "1 / 65535 \<le> real_of_int p / real k"
      using p1 kreal kpos by (simp add: field_simps)
    have frac_hi: "real_of_int p / real k \<le> 1"
      using pk kpos by (simp add: divide_le_eq)
    have in_lo: "1 / 2 ^ 126 \<le> real_of_int p / real k"
      using frac_lo by (rule order_trans [rotated]) simp
    have in_hi: "real_of_int p / real k \<le> 2 ^ 127"
      using frac_hi by (rule order_trans) simp
    have q_lo: "real_of_int p / real k - real_of_int p / real k * e \<le> q"
      and q_hi: "q \<le> real_of_int p / real k + real_of_int p / real k * e"
      using float_rounding_bounds [OF assms(1) in_lo in_hi] by (simp_all add: q_def e_def)
    define z where "z = q * real k"
    have z_lo: "real_of_int p - real_of_int p * e \<le> z"
    proof -
      have "(real_of_int p / real k - real_of_int p / real k * e) * real k \<le> q * real k"
        using q_lo kpos by (intro mult_right_mono) simp_all
      then show ?thesis
        using kpos by (simp add: z_def algebra_simps)
    qed
    have z_hi: "z \<le> real_of_int p + real_of_int p * e"
    proof -
      have "q * real k \<le> (real_of_int p / real k + real_of_int p / real k * e) * real k"
        using q_hi kpos by (intro mult_right_mono) simp_all
      then show ?thesis
        using kpos by (simp add: z_def algebra_simps)
    qed
    have e_val: "0 < e" "e \<le> 1 / 2"
      by (simp_all add: e_def)
    have zk: "z \<le> real k"
      using q01 kpos by (simp add: z_def mult_left_le_one_le)
    have "real_of_int p * e \<le> real_of_int p * (1 / 2)"
      using e_val p1 by (intro mult_left_mono) simp_all
    then have z_half: "1 / 2 \<le> z"
      using z_lo p1 by linarith
    have zin_lo: "1 / 2 ^ 126 \<le> z"
      using z_half by (rule order_trans [rotated]) simp
    have zin_hi: "z \<le> 2 ^ 127"
      using zk kreal by (rule order_trans [OF order_trans]) simp
    have f_lo: "z - z * e \<le> fl z" and f_hi: "fl z \<le> z + z * e"
      using float_rounding_bounds [OF assms(1) zin_lo zin_hi] by (simp_all add: e_def)
    have ke: "real k * e \<le> 65535 / 2 ^ 24"
      using k16 by (simp add: e_def)
    have ze: "z * e \<le> real k * e"
      using zk e_val by simp
    have pe: "real_of_int p * e \<le> real k * e"
      using pk e_val by simp
    have near_lo: "real_of_int p - 1 / 2 < fl z" and near_hi: "fl z < real_of_int p + 1 / 2"
      using z_lo z_hi f_lo f_hi ke ze pe by simp_all
    have "\<lfloor>fl z + 1 / 2\<rfloor> = p"
      using near_lo near_hi by (intro floor_unique) simp_all
    moreover have "0 \<le> fl z + 1 / 2"
      using near_lo p1 by linarith
    ultimately show ?thesis
      by (simp add: z_def)
  qed
  then show ?thesis
    by (simp add: duty_rounded_def static_cast_int_def k q_def [symmetric] c)
qed

lemma setRaw_rounded_result:
  "setRaw_rounded fl s raw =
    (if pwmRange_m s = 0 then Inl DivisionByZero
     else Inr (s\<lparr>sink := sink s @ (if onOff_m s
                                   then [AnalogWrite (redPin_m s) (duty_rounded fl s (R raw)),
                                         AnalogWrite (greenPin_m s) (duty_rounded fl s (G raw)),
                                         AnalogWrite (bluePin_m s) (duty_rounded fl s (B raw))]
                                   else []),
                  raw_m := \<lparr>R = fl (real_of_int (duty_rounded fl s (R raw))
                                      / u16_to_real (pwmRange_m s)),
                             G = fl (real_of_int (duty_rounded fl s (G raw))
                                      / u16_to_real (pwmRange_m s)),
                             B = fl (real_of_int (duty_rounded fl s (B raw))
                                      / u16_to_real (pwmRange_m s))\<rparr>,
                  luv_m := \<lparr>L = - 1, u = - 1, v = - 1\<rparr>,
                  T_m := 65535\<rparr>))"
  by (simp add: setRaw_rounded_def duty_rounded_def Let_def u16_to_real_eq_0)

lemma duty_rounded_updates [simp]:
  "duty_rounded fl (s\<lparr>sink := k\<rparr>) x = duty_rounded fl s x"
  "duty_rounded fl (s\<lparr>raw_m := a\<rparr>) x = duty_rounded fl s x"
  "duty_rounded fl (s\<lparr>luv_m := b\<rparr>) x = duty_rounded fl s x"
  "duty_rounded fl (s\<lparr>T_m := c\<rparr>) x = duty_rounded fl s x"
  "duty_rounded fl (s\<lparr>onOff_m := d\<rparr>) x = duty_rounded fl s x"
  by (simp_all add: duty_rounded_def)

section \<open>A NaN in \<open>setRaw\<close>\<close>

lemma limit01_float_simps:
  "limit01_float (Finite r) = Finite (limit01 r)"
  "limit01_float PlusInfinity = Finite 1"
  "limit01_float MinusInfinity = Finite 0"
  "limit01_float NaN = NaN"
  by (simp_all add: limit01_float_def limit01_def float_less_def float_greater_def Let_def)

lemma duty_float_simps:
  "duty_float invalid fl s (Finite r) = duty_rounded fl s r"
  "duty_float invalid fl s NaN = invalid NaN"
  by (simp_all add: duty_float_def limit01_float_simps times_plus_half_def
      static_cast_int_float_def duty_rounded_def)

lemma setRaw_float_result:
  "setRaw_float invalid fl s raw =
    (if pwmRange_m s = 0 then Inl DivisionByZero
     else Inr (s\<lparr>sink := sink s @ (if onOff_m s
                                   then [AnalogWrite (redPin_m s) (duty_float invalid fl s (Rf raw)),
                                         AnalogWrite (greenPin_m s) (duty_float invalid fl s (Gf raw)),
                                         AnalogWrite (bluePin_m s) (duty_float invalid fl s (Bf raw))]
                                   else []),
                  raw_m := \<lparr>R = fl (fl (real_of_int (duty_float invalid fl s (Rf raw)))
                                      / u16_to_real (pwmRange_m s)),
                             G = fl (fl (real_of_int (duty_float invalid fl s (Gf raw)))
                                      / u16_to_real (pwmRange_m s)),
                             B = fl (fl (real_of_int (duty_float invalid fl s (Bf raw)))
                                      / u16_to_real (pwmRange_m s))\<rparr>,
                  luv_m := \<lparr>L = - 1, u = - 1, v = - 1\<rparr>,
                  T_m := 65535\<rparr>))"
  by (simp add: setRaw_float_def duty_float_def Let_def u16_to_real_eq_0)

lemma float_rounding_duty:
  assumes "float_rounding fl"
  shows "fl (real_of_int (duty_rounded fl s x)) = real_of_int (duty_rounded fl s x)"
proof -
  obtain k :: nat where k: "u16_to_real (pwmRange_m s) = real k" and k16: "k \<le> 65535"
    using u16_to_real_nat by blast
  have "0 \<le> duty_rounded fl s x" and "real_of_int (duty_rounded fl s x) \<le> real k"
    using duty_rounded_range [OF assms, of s x] by (simp_all add: k)
  then have "\<bar>duty_rounded fl s x\<bar> \<le> 2 ^ 24"
    using k16 by simp
  then show ?thesis
    by (rule float_rounding_int [OF assms])
qed

lemma setRaw_float_Finite:
  assumes "float_rounding fl"
  shows "setRaw_float invalid fl s \<lparr>Rf = Finite r, Gf = Finite g, Bf = Finite b\<rparr>
          = setRaw_rounded fl s \<lparr>R = r, G = g, B = b\<rparr>"
  by (simp add: setRaw_float_result setRaw_rounded_result duty_float_simps
      float_rounding_duty [OF assms])

lemma stored_outside_unit:
  assumes "float_rounding fl" and "pwmRange_m s \<noteq> 0"
  shows "real_of_int n < 0 \<Longrightarrow> fl (fl (real_of_int n) / u16_to_real (pwmRange_m s)) < 0"
    and "u16_to_real (pwmRange_m s) < real_of_int n
          \<Longrightarrow> 1 < fl (fl (real_of_int n) / u16_to_real (pwmRange_m s))"
proof -
  obtain k :: nat where k: "u16_to_real (pwmRange_m s) = real k" and k16: "k \<le> 65535"
    using u16_to_real_nat by blast
  have kpos: "0 < real k"
    using u16_to_real_pos [OF assms(2)] by (simp add: k)
  have kreal: "real k \<le> 65535"
    using k16 by simp
  {
    assume neg: "real_of_int n < 0"
    then have "real_of_int n \<le> real_of_int (- 1)" by simp
    then have "fl (real_of_int n) \<le> fl (real_of_int (- 1))"
      by (rule float_rounding_mono [OF assms(1)])
    moreover have "fl (real_of_int (- 1)) = real_of_int (- 1)"
      by (rule float_rounding_int [OF assms(1)]) simp
    ultimately have a: "fl (real_of_int n) \<le> - 1" by simp
    have "fl (real_of_int n) / real k \<le> (- 1) / real k"
      by (rule divide_right_mono [OF a]) (use kpos in simp)
    then have b: "fl (fl (real_of_int n) / real k) \<le> fl (- 1 / real k)"
      by (rule float_rounding_mono [OF assms(1)])
    have lo: "1 / 2 ^ 126 \<le> \<bar>- 1 / real k\<bar>"
    proof -
      have "1 / 65535 \<le> 1 / real k"
        using kpos kreal by (simp add: field_simps)
      moreover have "(1::real) / 2 ^ 126 \<le> 1 / 65535" by simp
      ultimately show ?thesis using kpos by simp
    qed
    have hi: "\<bar>- 1 / real k\<bar> \<le> 2 ^ 127"
    proof -
      have "1 \<le> real k"
        using kpos by simp
      then have "1 / real k \<le> 1"
        by simp
      moreover have "(1::real) \<le> 2 ^ 127" by simp
      ultimately have "1 / real k \<le> 2 ^ 127"
        by (rule order_trans)
      then show ?thesis using kpos by simp
    qed
    have "\<bar>fl (- 1 / real k) - (- 1 / real k)\<bar> \<le> \<bar>- 1 / real k\<bar> / 2 ^ 24"
      using assms(1) lo hi unfolding float_rounding_def by blast
    then have "fl (- 1 / real k) \<le> - 1 / real k + (1 / real k) / 2 ^ 24"
      using kpos by simp
    moreover have "- 1 / real k + (1 / real k) / 2 ^ 24 < 0"
      using kpos by (simp add: field_simps)
    ultimately have "fl (- 1 / real k) < 0" by linarith
    then show "fl (fl (real_of_int n) / u16_to_real (pwmRange_m s)) < 0"
      using b by (simp add: k)
  }
  {
    assume big: "u16_to_real (pwmRange_m s) < real_of_int n"
    then have "int k + 1 \<le> n"
      by (simp add: k)
    then have "real_of_int (int k + 1) \<le> real_of_int n"
      by (simp only: of_int_le_iff)
    then have "fl (real_of_int (int k + 1)) \<le> fl (real_of_int n)"
      by (rule float_rounding_mono [OF assms(1)])
    moreover have "fl (real_of_int (int k + 1)) = real_of_int (int k + 1)"
      using k16 by (intro float_rounding_int [OF assms(1)]) simp
    ultimately have a: "real k + 1 \<le> fl (real_of_int n)" by simp
    define q where "q = (real k + 1) / real k"
    have "q \<le> fl (real_of_int n) / real k"
      unfolding q_def by (rule divide_right_mono [OF a]) (use kpos in simp)
    then have b: "fl q \<le> fl (fl (real_of_int n) / real k)"
      by (rule float_rounding_mono [OF assms(1)])
    have q1: "1 + 1 / 65535 \<le> q"
    proof -
      have "1 / 65535 \<le> 1 / real k"
        using kpos kreal by (simp add: field_simps)
      moreover have "q = 1 + 1 / real k"
        using kpos by (simp add: q_def field_simps)
      ultimately show ?thesis by simp
    qed
    have q2: "q \<le> 2"
      using kpos by (simp add: q_def field_simps)
    have lo: "1 / 2 ^ 126 \<le> q"
      using q1 by (rule order_trans [rotated]) simp
    have hi: "q \<le> 2 ^ 127"
      using q2 by (rule order_trans) simp
    have "q - q / 2 ^ 24 \<le> fl q"
      using float_rounding_bounds(1) [OF assms(1) lo hi] .
    moreover have "1 < q - q / 2 ^ 24"
      using q1 q2 by simp
    ultimately have "1 < fl q" by linarith
    then show "1 < fl (fl (real_of_int n) / u16_to_real (pwmRange_m s))"
      using b by (simp add: k)
  }
qed

lemma stored_unit_iff:
  assumes "float_rounding fl" and "pwmRange_m s \<noteq> 0"
  shows "0 \<le> fl (fl (real_of_int n) / u16_to_real (pwmRange_m s))
      \<and> fl (fl (real_of_int n) / u16_to_real (pwmRange_m s)) \<le> 1
    \<longleftrightarrow> 0 \<le> n \<and> real_of_int n \<le> u16_to_real (pwmRange_m s)"
proof -
  define N where "N = u16_to_real (pwmRange_m s)"
  have inside: "0 \<le> fl (fl (real_of_int n) / N) \<and> fl (fl (real_of_int n) / N) \<le> 1"
    if "0 \<le> n" and "real_of_int n \<le> N"
  proof -
    obtain k :: nat where k: "N = real k" and k16: "k \<le> 65535"
      using u16_to_real_nat N_def by blast
    have "\<bar>n\<bar> \<le> 2 ^ 24"
      using that k16 by (simp add: k)
    then have "fl (real_of_int n) = real_of_int n"
      by (rule float_rounding_int [OF assms(1)])
    then show ?thesis
      using stored_in_unit [OF assms that(1)] that(2) by (simp add: N_def)
  qed
  have below: "fl (fl (real_of_int n) / N) < 0" if "n < 0"
    using stored_outside_unit(1) [OF assms, of n] that by (simp add: N_def)
  have above: "1 < fl (fl (real_of_int n) / N)" if "N < real_of_int n"
    using stored_outside_unit(2) [OF assms, of n] that by (simp add: N_def)
  show ?thesis
    unfolding N_def [symmetric] using inside below above by (metis not_le)
qed

lemma setRaw_float_NaN:
  assumes "float_rounding fl" and "pwmRange_m s \<noteq> 0"
  shows "\<exists>s'. setRaw_float invalid fl s \<lparr>Rf = NaN, Gf = g, Bf = b\<rparr> = Inr s'
    \<and> sink s' = sink s @ (if onOff_m s
                           then [AnalogWrite (redPin_m s) (invalid NaN),
                                 AnalogWrite (greenPin_m s) (duty_float invalid fl s g),
                                 AnalogWrite (bluePin_m s) (duty_float invalid fl s b)]
                           else [])
    \<and> R (getRaw s') = fl (fl (real_of_int (invalid NaN)) / u16_to_real (pwmRange_m s))
    \<and> (0 \<le> R (getRaw s') \<and> R (getRaw s') \<le> 1
        \<longleftrightarrow> 0 \<le> invalid NaN \<and> real_of_int (invalid NaN) \<le> u16_to_real (pwmRange_m s))"
  using assms(2) stored_unit_iff [OF assms, of "invalid NaN"]
  by (simp add: setRaw_float_result duty_float_simps getRaw_def)

section \<open>The limit to full power under rounding\<close>





lemma saveTarget_eq:
  "saveTarget s target =
    s\<lparr>luv_m := \<lparr>L = (if L target < 0 then 0 else L target), u = u target, v = v target\<rparr>\<rparr>"
  by (simp add: saveTarget_def Let_def)

lemma saveTarget_fields [simp]:
  "pwmRange_m (saveTarget s target) = pwmRange_m s"
  "onOff_m (saveTarget s target) = onOff_m s"
  "sink (saveTarget s target) = sink s"
  by (simp_all add: saveTarget_eq)

lemma duty_rounded_saveTarget [simp]:
  "duty_rounded fl (saveTarget s target) x = duty_rounded fl s x"
  by (simp add: saveTarget_eq)


lemma scaledRaw_luv_m [simp]: "scaledRaw (s\<lparr>luv_m := x\<rparr>) target = scaledRaw s target"
  by (cases "findCoefficients s target") (simp_all add: scaledRaw_def bind_fault_simps)



section \<open>A NaN from the solver to the raw state\<close>

lemma nan_simps:
  "nan_plus (Some x) (Some y) = Some (x + y)"
  "nan_plus None b = None"
  "nan_plus a None = None"
  "nan_times (Some x) (Some y) = Some (x * y)"
  "nan_times None b = None"
  "nan_times a None = None"
  "nan_divide None b = Inr None"
  "nan_divide a None = Inr None"
  "nan_divide (Some x) (Some y) = (if y = 0 then Inl DivisionByZero else Inr (Some (x / y)))"
  "nan_greater None b = False"
  "nan_greater a None = False"
  "nan_greater (Some x) (Some y) = (x > y)"
  "float_of None = NaN"
  "float_of (Some x) = Finite x"
  by (simp_all add: nan_plus_def nan_times_def nan_divide_def nan_greater_def float_of_def
      split: option.splits)

lemma findCoefficient_float_simps:
  "findCoefficient_m PT P0 P1 P2 rf lf = Inr x
    \<Longrightarrow> findCoefficient_float PT P0 P1 P2 rf lf = Inr (Some x)"
  "findCoefficient_m PT P0 P1 P2 rf lf = Inl NotANumber
    \<Longrightarrow> findCoefficient_float PT P0 P1 P2 rf lf = Inr None"
  "findCoefficient_m PT P0 P1 P2 rf lf = Inl DivisionByZero
    \<Longrightarrow> findCoefficient_float PT P0 P1 P2 rf lf = Inl DivisionByZero"
  by (simp_all add: findCoefficient_float_def)

lemma saveTarget_calibration [simp]:
  "redUv_m (saveTarget s target) = redUv_m s"
  "greenUv_m (saveTarget s target) = greenUv_m s"
  "blueUv_m (saveTarget s target) = blueUv_m s"
  "redLum_m (saveTarget s target) = redLum_m s"
  "greenLum_m (saveTarget s target) = greenLum_m s"
  "blueLum_m (saveTarget s target) = blueLum_m s"
  "maxLum_m (saveTarget s target) = maxLum_m s"
  "redToGreenFit_m (saveTarget s target) = redToGreenFit_m s"
  "greenToBlueFit_m (saveTarget s target) = greenToBlueFit_m s"
  "blueToRedFit_m (saveTarget s target) = blueToRedFit_m s"
  by (simp_all add: saveTarget_eq)

lemma setRaw_rounded_saveTarget [simp]:
  "setRaw_rounded fl (saveTarget s target) raw = setRaw_rounded fl s raw"
  by (simp add: setRaw_rounded_result saveTarget_eq)

text \<open>On numbers the setter that carries a NaN is the setter with exact arithmetic.\<close>

lemma setCie1976Ucs_float_numbers:
  assumes "findCoefficients s target = Inr c"
  shows "setCie1976Ucs_float invalid (\<lambda>x. x) s target = setCie1976Ucs s target"
proof -
  have f: "float_rounding (\<lambda>x. x)"
    by (simp add: float_rounding_def)
  obtain r g b where
    r: "findCoefficient_m target (redUv_m s) (greenUv_m s) (blueUv_m s)
          (redToGreenFit_m s) (greenToBlueFit_m s) = Inr r"
    and g: "findCoefficient_m target (greenUv_m s) (blueUv_m s) (redUv_m s)
          (greenToBlueFit_m s) (blueToRedFit_m s) = Inr g"
    and b: "findCoefficient_m target (blueUv_m s) (redUv_m s) (greenUv_m s)
          (blueToRedFit_m s) (redToGreenFit_m s) = Inr b"
    and c: "c = \<lparr>R = r, G = g, B = b\<rparr>"
    using assms by (auto simp: findCoefficients_def bind_fault_Inr)
  have sc: "scaledRaw s target = scaleToTargetLuma s target \<lparr>R = r, G = g, B = b\<rparr>"
    using assms by (simp add: scaledRaw_def c bind_fault_simps)
  show ?thesis
    unfolding setCie1976Ucs_eq sc
    by (simp add: setCie1976Ucs_float_def Let_def findCoefficient_float_simps(1) r g b
        bind_fault_simps nan_simps scaleToTargetLuma_def limitToMaxPower_def maxRaw_def
        setRaw_float_Finite [OF f] setRaw_def)
qed

lemma skewed_red:
  "findCoefficient_m (warmWhite l) \<lparr>L = 100, u = 1107 / 2000, v = 517 / 1000\<rparr>
      \<lparr>L = 100, u = 373 / 10000, v = 366 / 625\<rparr> \<lparr>L = 100, u = 1679 / 10000, v = 1153 / 10000\<rparr>
      (14829 / 5000, 0, 9829 / 5000) (- 3, 3 / 2, - 3) = Inl NotANumber"
  unfolding findCoefficient_m_def warmWhite_eq
  by (simp add: Let_def at0_def at1_def at2_def bind_fault_simps dR_neg_def
      dR_neg_radicand_areas cross_def power2_eq_square)

lemma skewed_margin:
  "radicand (warmWhite l) \<lparr>L = 100, u = 1107 / 2000, v = 517 / 1000\<rparr>
      \<lparr>L = 100, u = 373 / 10000, v = 366 / 625\<rparr> \<lparr>L = 100, u = 1679 / 10000, v = 1153 / 10000\<rparr>
      (- 3, 3 / 2, - 3) \<le> - (1 / 100)"
  unfolding radicand_def warmWhite_eq
  by (simp add: at0_def at1_def at2_def dR_neg_radicand_areas cross_def power2_eq_square)

lemma skewed_green:
  "findCoefficient_m (warmWhite l) \<lparr>L = 100, u = 373 / 10000, v = 366 / 625\<rparr>
      \<lparr>L = 100, u = 1679 / 10000, v = 1153 / 10000\<rparr> \<lparr>L = 100, u = 1107 / 2000, v = 517 / 1000\<rparr>
      (- 3, 3 / 2, - 3) (- (2121 / 10000), 2121 / 10000, 2121 / 10000)
    = Inr (3995629339941334575160319247504455946 / 7629891665645011554613957063474333003)"
  unfolding findCoefficient_m_def warmWhite_eq
  by (simp add: Let_def at0_def at1_def at2_def bind_fault_simps
      dR_neg_fit_p2_minus_p1 [of _ _ _ _ _ _ _ _ "- (2121 / 10000)", simplified]
      dR_neg_numerator_def dR_neg_denominator_def cross_def)

lemma skewed_blue:
  "findCoefficient_m (warmWhite l) \<lparr>L = 100, u = 1679 / 10000, v = 1153 / 10000\<rparr>
      \<lparr>L = 100, u = 1107 / 2000, v = 517 / 1000\<rparr> \<lparr>L = 100, u = 373 / 10000, v = 366 / 625\<rparr>
      (- (2121 / 10000), 2121 / 10000, 2121 / 10000) (14829 / 5000, 0, 9829 / 5000)
    = Inr (164841994274710110674951016729411426495 / 36097185549900615210020864264083090606013)"
  unfolding findCoefficient_m_def warmWhite_eq
  by (simp add: Let_def at0_def at1_def at2_def bind_fault_simps dR_pos_fit_p2_zero
      dR_pos_numerator_def dR_pos_denominator_def cross_def)

lemma setCie1976Ucs_float_skewed:
  assumes "redUv_m s = \<lparr>L = 100, u = 1107 / 2000, v = 517 / 1000\<rparr>"
    and "greenUv_m s = \<lparr>L = 100, u = 373 / 10000, v = 366 / 625\<rparr>"
    and "blueUv_m s = \<lparr>L = 100, u = 1679 / 10000, v = 1153 / 10000\<rparr>"
    and "redToGreenFit_m s = (14829 / 5000, 0, 9829 / 5000)"
    and "greenToBlueFit_m s = (- 3, 3 / 2, - 3)"
    and "blueToRedFit_m s = (- (2121 / 10000), 2121 / 10000, 2121 / 10000)"
  shows "setCie1976Ucs_float invalid fl s (warmWhite l) =
    setRaw_float invalid fl (saveTarget s (warmWhite l)) \<lparr>Rf = NaN, Gf = NaN, Bf = NaN\<rparr>"
  by (simp add: setCie1976Ucs_float_def Let_def assms bind_fault_simps nan_simps
      findCoefficient_float_simps(2) [OF skewed_red]
      findCoefficient_float_simps(1) [OF skewed_green]
      findCoefficient_float_simps(1) [OF skewed_blue])

lemma recalibrateSkewed_builtEngine:
  "recalibrateSkewed invalid fl builtEngine =
    Inr (builtEngine\<lparr>raw_m := \<lparr>R = fl (fl (real_of_int (invalid NaN)) / 255),
                                   G = fl (fl (real_of_int (invalid NaN)) / 255),
                                   B = fl (fl (real_of_int (invalid NaN)) / 255)\<rparr>,
                        greenToBlueFit_m := (- 3, 1.5, - 3)\<rparr>)"
proof -
  define s1 where "s1 = builtEngine\<lparr>greenToBlueFit_m := (- 3, 3 / 2, - 3)\<rparr>"
  have store: "storeCalibration builtEngine
      \<lparr>L = 100, u = 0.5535, v = 0.5170\<rparr> \<lparr>L = 100, u = 0.0373, v = 0.5856\<rparr>
      \<lparr>L = 100, u = 0.1679, v = 0.1153\<rparr> 0.5 1.0 0.75
      (2.9658, 0.0, 1.9658) (- 3, 1.5, - 3) (- 0.2121, 0.2121, 0.2121) = s1"
    by (simp add: storeCalibration_def s1_def builtEngine_def at0_def at1_def at2_def)
  have t: "T_m s1 = 1900" and l: "L (luv_m s1) = - 1" and n: "pwmRange_m s1 = 255"
    and off: "\<not> onOff_m s1"
    by (simp_all add: s1_def builtEngine_def unsetLuv_def)
  have ct: "setColorTemperature_float invalid fl s1 (- 1) 1900 =
      bind_fault (setCie1976Ucs_float invalid fl s1 (warmWhite (- 1)))
        (\<lambda>s'. Inr (s'\<lparr>T_m := 1900\<rparr>))"
    by (simp add: setColorTemperature_float_def Let_def warmWhite_def l)
  have cie: "setCie1976Ucs_float invalid fl s1 (warmWhite (- 1)) =
      setRaw_float invalid fl (saveTarget s1 (warmWhite (- 1))) \<lparr>Rf = NaN, Gf = NaN, Bf = NaN\<rparr>"
    by (rule setCie1976Ucs_float_skewed) (simp_all add: s1_def builtEngine_def)
  show ?thesis
    unfolding recalibrateSkewed_def calibrate_float_def store Let_def
    by (simp add: t l ct cie setRaw_float_result duty_float_simps n off bind_fault_simps
        u16_to_real_def)
      (simp add: s1_def builtEngine_def saveTarget_eq unsetLuv_def warmWhite_L)
qed

text \<open>
  The same call in the model that stops at a fault: it stops where the NaN is made.
\<close>

lemma calibrate_skewed_fault:
  "calibrate builtEngine
      \<lparr>L = 100, u = 0.5535, v = 0.5170\<rparr> \<lparr>L = 100, u = 0.0373, v = 0.5856\<rparr>
      \<lparr>L = 100, u = 0.1679, v = 0.1153\<rparr> 0.5 1.0 0.75
      (2.9658, 0.0, 1.9658) (- 3, 1.5, - 3) (- 0.2121, 0.2121, 0.2121) = Inl NotANumber"
proof -
  define s1 where "s1 = builtEngine\<lparr>greenToBlueFit_m := (- 3, 3 / 2, - 3)\<rparr>"
  have store: "storeCalibration builtEngine
      \<lparr>L = 100, u = 0.5535, v = 0.5170\<rparr> \<lparr>L = 100, u = 0.0373, v = 0.5856\<rparr>
      \<lparr>L = 100, u = 0.1679, v = 0.1153\<rparr> 0.5 1.0 0.75
      (2.9658, 0.0, 1.9658) (- 3, 1.5, - 3) (- 0.2121, 0.2121, 0.2121) = s1"
    by (simp add: storeCalibration_def s1_def builtEngine_def at0_def at1_def at2_def)
  have t: "T_m s1 = 1900" and l: "L (luv_m s1) = - 1"
    by (simp_all add: s1_def builtEngine_def unsetLuv_def)
  have "findCoefficients s1 (warmWhite (- 1)) = Inl NotANumber"
    unfolding findCoefficients_def
    by (simp add: s1_def builtEngine_def skewed_red bind_fault_simps)
  then have "setCie1976Ucs s1 (warmWhite (- 1)) = Inl NotANumber"
    by (simp add: setCie1976Ucs_eq scaledRaw_def bind_fault_simps)
  then show ?thesis
    unfolding calibrate_def store Let_def
    by (simp add: t l setColorTemperature_1900 bind_fault_simps)
qed

section \<open>The claims\<close>

text \<open>
  Claim C1. After \<open>setColorTemperature(L, T)\<close> with \<open>L > 0\<close>, \<open>calibrate\<close> re-derives the raw
  state from the cached temperature and the cached lightness, so that the raw state is the
  one \<open>setColorTemperature(L, T)\<close> gives under the new calibration. The engine as built
  (the constructor ends in \<open>setColorTemperature(50, 1900)\<close>) shows what the code does
  instead: the cached lightness is the unset value, \<open>calibrate\<close> with the very same
  calibration runs \<open>setColorTemperature(-1, 1900)\<close>, and the raw state goes from
  \<open>(99, 56, 1) / 255\<close> to \<open>(1, 1, 0) / 255\<close>, while \<open>setColorTemperature(50, 1900)\<close> would
  have left it where it was.
\<close>

theorem recalibration_forgets_lightness:
  "LedEngine_new 12 13 14 4 5 255 mem = Inr builtEngine
    \<and> getColorTemperature builtEngine = 1900
    \<and> getCie1976Ucs builtEngine = \<lparr>L = - 1, u = - 1, v = - 1\<rparr>
    \<and> getRaw builtEngine = \<lparr>R = 99 / 255, G = 56 / 255, B = 1 / 255\<rparr>
    \<and> setColorTemperature builtEngine 50 1900 = Inr builtEngine
    \<and> recalibrateDefault builtEngine = setColorTemperature builtEngine (- 1) 1900
    \<and> recalibrateDefault builtEngine
        = Inr (builtEngine\<lparr>raw_m := \<lparr>R = 1 / 255, G = 1 / 255, B = 0\<rparr>\<rparr>)"
proof -
  have "getColorTemperature builtEngine = 1900"
    and "getCie1976Ucs builtEngine = \<lparr>L = - 1, u = - 1, v = - 1\<rparr>"
    and "getRaw builtEngine = \<lparr>R = 99 / 255, G = 56 / 255, B = 1 / 255\<rparr>"
    by (simp_all add: getColorTemperature_def getCie1976Ucs_def getRaw_def builtEngine_def
        unsetLuv_def)
  then show ?thesis
    using LedEngine_new_255 builtEngine_setColorTemperature builtEngine_recalibrated
    by blast
qed

text \<open>
  Claim C2. In a state where neither cache is valid, for example right after \<open>setRaw\<close>,
  \<open>calibrate\<close> stores the calibration and leaves the raw state alone: no re-solve, no PWM
  write. The engine as built, switched on and set to full white by \<open>setRaw\<close>, shows what
  the code does instead: both caches read unset (the temperature as 65535), and
  \<open>calibrate\<close> re-solves for 65535 K, writes the duty cycles 1, 1, 0 and replaces the raw
  state \<open>(1, 1, 1)\<close> by \<open>(1, 1, 0) / 255\<close>.
\<close>

theorem calibrate_after_setRaw_resolves:
  "setOnOff builtEngine True = Inr litEngine
    \<and> setRaw litEngine \<lparr>R = 1, G = 1, B = 1\<rparr> = Inr whiteEngine
    \<and> getRaw whiteEngine = \<lparr>R = 1, G = 1, B = 1\<rparr>
    \<and> getCie1976Ucs whiteEngine = \<lparr>L = - 1, u = - 1, v = - 1\<rparr>
    \<and> getColorTemperature whiteEngine = 65535
    \<and> recalibrateDefault whiteEngine
        = Inr (whiteEngine\<lparr>sink := sink whiteEngine @
                               [AnalogWrite 12 1, AnalogWrite 13 1, AnalogWrite 14 0],
                           raw_m := \<lparr>R = 1 / 255, G = 1 / 255, B = 0\<rparr>\<rparr>)"
proof -
  have "getRaw whiteEngine = \<lparr>R = 1, G = 1, B = 1\<rparr>"
    and "getCie1976Ucs whiteEngine = \<lparr>L = - 1, u = - 1, v = - 1\<rparr>"
    and "getColorTemperature whiteEngine = 65535"
    by (simp_all add: getColorTemperature_def getCie1976Ucs_def getRaw_def whiteEngine_def
        litEngine_def builtEngine_def unsetLuv_def)
  then show ?thesis
    using builtEngine_switched_on litEngine_white whiteEngine_recalibrated
    by blast
qed

text \<open>
  Claim C3. The unset value of the temperature cache is \<open>-1\<close> assigned to a \<^verbatim>\<open>uint16_t\<close>:
  after \<open>setRaw\<close>, and so after \<open>setCie1976Ucs\<close>, \<open>getColorTemperature\<close> returns 65535, the
  test \<^verbatim>\<open>T_ >= 1000\<close> of \<open>calibrate\<close> holds for it, and \<open>calibrate\<close> takes its temperature
  branch with 65535 K (and the unset lightness \<open>-1\<close>).
\<close>

theorem unset_temperature_reads_65535:
  "(- 1 :: 16 word) = 65535
    \<and> (setRaw s raw = Inr s' \<longrightarrow>
         getColorTemperature s' = 65535 \<and> 1000 \<le> T_m s'
         \<and> calibrate s' redUv greenUv blueUv redLum greenLum blueLum
              redToGreenFit greenToBlueFit blueToRedFit
           = setColorTemperature
               (storeCalibration s' redUv greenUv blueUv redLum greenLum blueLum
                  redToGreenFit greenToBlueFit blueToRedFit) (- 1) 65535)
    \<and> (setCie1976Ucs t target = Inr t' \<longrightarrow>
         getColorTemperature t' = 65535 \<and> 1000 \<le> T_m t'
         \<and> calibrate t' redUv greenUv blueUv redLum greenLum blueLum
              redToGreenFit greenToBlueFit blueToRedFit
           = setColorTemperature
               (storeCalibration t' redUv greenUv blueUv redLum greenLum blueLum
                  redToGreenFit greenToBlueFit blueToRedFit) (- 1) 65535)"
proof -
  have after: "getColorTemperature x = 65535 \<and> 1000 \<le> T_m x
      \<and> calibrate x redUv greenUv blueUv redLum greenLum blueLum
           redToGreenFit greenToBlueFit blueToRedFit
        = setColorTemperature
            (storeCalibration x redUv greenUv blueUv redLum greenLum blueLum
               redToGreenFit greenToBlueFit blueToRedFit) (- 1) 65535"
    if "luv_m x = unsetLuv" and "T_m x = 65535" for x
    using that calibrate_after_unset [OF that]
    by (simp add: getColorTemperature_def)
  show ?thesis
    using after setRaw_caches setCie1976Ucs_caches by simp
qed

theorem unset_temperature_reads_65535_witness:
  "setRaw litEngine \<lparr>R = 1, G = 1, B = 1\<rparr> = Inr whiteEngine
    \<and> getColorTemperature whiteEngine = 65535 \<and> 1000 \<le> T_m whiteEngine
    \<and> recalibrateDefault whiteEngine = setColorTemperature whiteEngine (- 1) 65535
    \<and> setCie1976Ucs builtEngine (warmWhite 50) = Inr (builtEngine\<lparr>T_m := 65535\<rparr>)
    \<and> getColorTemperature (builtEngine\<lparr>T_m := 65535\<rparr>) = 65535"
proof -
  note inst = unset_temperature_reads_65535
    [of litEngine "\<lparr>R = 1, G = 1, B = 1\<rparr>" whiteEngine
        "\<lparr>L = 100, u = 0.5535, v = 0.5170\<rparr>" "\<lparr>L = 100, u = 0.0373, v = 0.5856\<rparr>"
        "\<lparr>L = 100, u = 0.1679, v = 0.1153\<rparr>" "0.5" "1.0" "0.75"
        "(2.9658, 0.0, 1.9658)" "(1.3587, 0.0, 0.3587)" "(- 0.2121, 0.2121, 0.2121)"
        builtEngine "warmWhite 50" "builtEngine\<lparr>T_m := 65535\<rparr>"]
  have "storeCalibration whiteEngine
          \<lparr>L = 100, u = 0.5535, v = 0.5170\<rparr> \<lparr>L = 100, u = 0.0373, v = 0.5856\<rparr>
          \<lparr>L = 100, u = 0.1679, v = 0.1153\<rparr> 0.5 1.0 0.75
          (2.9658, 0.0, 1.9658) (1.3587, 0.0, 0.3587) (- 0.2121, 0.2121, 0.2121) = whiteEngine"
    by (rule storeCalibration_default [OF whiteEngine_calibration])
  then show ?thesis
    using inst litEngine_white builtEngine_warm50
    by (simp add: recalibrateDefault_def)
qed

text \<open>
  Claim C4. After \<open>setCie1976Ucs(luv)\<close> returns, \<open>getCie1976Ucs\<close> returns the unset value
  \<open>{-1, -1, -1}\<close>: the target is stored first, and the final \<open>setRaw\<close> overwrites it.
\<close>

theorem setCie1976Ucs_leaves_cache_unset:
  assumes "setCie1976Ucs s target = Inr s'"
  shows "getCie1976Ucs s' = \<lparr>L = - 1, u = - 1, v = - 1\<rparr>"
  using setCie1976Ucs_caches(1) [OF assms]
  by (simp add: getCie1976Ucs_def unsetLuv_def)

theorem setCie1976Ucs_leaves_cache_unset_witness:
  "setCie1976Ucs builtEngine (warmWhite 50) = Inr (builtEngine\<lparr>T_m := 65535\<rparr>)
    \<and> getCie1976Ucs (builtEngine\<lparr>T_m := 65535\<rparr>) = \<lparr>L = - 1, u = - 1, v = - 1\<rparr>
    \<and> L (warmWhite 50) = 50"
  using setCie1976Ucs_leaves_cache_unset [OF builtEngine_warm50] builtEngine_warm50
  by (simp add: warmWhite_L)

text \<open>
  Claim C5. After every mutating operation each component of the raw state, as \<open>getRaw\<close>
  returns it, lies in \<open>[0, 1]\<close>. After the constructor, \<open>calibrate\<close> with the green-to-blue
  fit \<open>{-3, 1.5, -3}\<close> and the default values otherwise shows what the code does instead.
  \<open>calibrate\<close> runs \<open>setColorTemperature\<close> for the cached 1900 K; in the call of
  \<^verbatim>\<open>findCoefficient_\<close> for red the argument of \<^verbatim>\<open>sqrt\<close> is negative, so the coefficient is a
  NaN, and so are the luma, the luma factor and the three scaled channels. The clamp of
  \<open>setRaw\<close> (lines 54 to 59, under the comment \<^verbatim>\<open>Limit values in the range 0..1\<close>) has two
  tests, both false of a NaN: the NaN goes on to \<^verbatim>\<open>static_cast<int>\<close>, and each component
  stored is the integer that comes out, over the PWM range. The raw state lies in \<open>[0, 1]\<close>
  only if that integer lies between 0 and 255. This is so for every rounding in \<open>setRaw\<close>
  that satisfies \<open>float_rounding\<close>. (The instance that follows takes for that
  integer the largest and the smallest \<^verbatim>\<open>int\<close>: what a conversion that saturates gives,
  and what the conversion instruction of x86 gives.)
\<close>

theorem calibrate_leaves_unit_range:
  assumes "float_rounding fl"
  shows "LedEngine_new 12 13 14 4 5 255 mem = Inr builtEngine
    \<and> (\<exists>s'. recalibrateSkewed invalid fl builtEngine = Inr s'
          \<and> sink s' = sink builtEngine
          \<and> getRaw s' = \<lparr>R = fl (fl (real_of_int (invalid NaN)) / 255),
                          G = fl (fl (real_of_int (invalid NaN)) / 255),
                          B = fl (fl (real_of_int (invalid NaN)) / 255)\<rparr>
          \<and> (rawInUnitRange s' \<longleftrightarrow> 0 \<le> invalid NaN \<and> invalid NaN \<le> 255))"
proof -
  have n: "pwmRange_m builtEngine \<noteq> 0" and N: "u16_to_real (pwmRange_m builtEngine) = 255"
    by (simp_all add: example_ranges u16_to_real_def)
  have "0 \<le> fl (fl (real_of_int (invalid NaN)) / 255)
      \<and> fl (fl (real_of_int (invalid NaN)) / 255) \<le> 1
    \<longleftrightarrow> 0 \<le> invalid NaN \<and> invalid NaN \<le> 255"
    using stored_unit_iff [OF assms n, of "invalid NaN"] by (simp add: N)
  then show ?thesis
    by (simp add: LedEngine_new_255 recalibrateSkewed_builtEngine rawInUnitRange_def getRaw_def)
      blast
qed

theorem calibrate_leaves_unit_range_witness:
  "float_rounding (\<lambda>x. x)
    \<and> recalibrateSkewed (\<lambda>x. 2147483647) (\<lambda>x. x) builtEngine = Inr (skewedEngine 2147483647)
    \<and> R (getRaw (skewedEngine 2147483647)) = 2147483647 / 255
    \<and> \<not> rawInUnitRange (skewedEngine 2147483647)
    \<and> recalibrateSkewed (\<lambda>x. - 2147483648) (\<lambda>x. x) builtEngine
        = Inr (skewedEngine (- 2147483648))
    \<and> R (getRaw (skewedEngine (- 2147483648))) = - 2147483648 / 255
    \<and> \<not> rawInUnitRange (skewedEngine (- 2147483648))"
proof -
  have f: "float_rounding (\<lambda>x. x)"
    by (simp add: float_rounding_def)
  have run: "recalibrateSkewed (\<lambda>x. k) (\<lambda>x. x) builtEngine = Inr (skewedEngine k)" for k
    by (simp add: recalibrateSkewed_builtEngine skewedEngine_def)
  have out: "\<not> rawInUnitRange (skewedEngine k)" if "\<not> (0 \<le> k \<and> k \<le> 255)" for k
  proof -
    obtain s' where a: "recalibrateSkewed (\<lambda>x. k) (\<lambda>x. x) builtEngine = Inr s'"
      and iff: "rawInUnitRange s' \<longleftrightarrow> 0 \<le> k \<and> k \<le> 255"
      using calibrate_leaves_unit_range [OF f, of builtEngine "\<lambda>x. k"] by blast
    have "s' = skewedEngine k"
      using a run [of k] by simp
    then show ?thesis
      using iff that by blast
  qed
  have big: "\<not> rawInUnitRange (skewedEngine 2147483647)"
    by (rule out) simp
  have small: "\<not> rawInUnitRange (skewedEngine (- 2147483648))"
    by (rule out) simp
  have val: "R (getRaw (skewedEngine 2147483647)) = 2147483647 / 255"
    "R (getRaw (skewedEngine (- 2147483648))) = - 2147483648 / 255"
    by (simp_all add: getRaw_def skewedEngine_def)
  show ?thesis
    using f run [of 2147483647] run [of "- 2147483648"] big small val by blast
qed

text \<open>
  Claim C6. For every raw input \<open>r\<close>, \<open>setRaw(r)\<close> followed by \<open>getRaw()\<close> gives components
  in \<open>[0, 1]\<close>, and \<open>setRaw\<close> of that value followed by \<open>getRaw()\<close> gives the same value
  again, from the same duty cycles. It holds with exact arithmetic and with every rounding
  \<open>fl\<close> of the two \<^verbatim>\<open>float\<close> operations that satisfies \<open>float_rounding\<close>. (The PWM range
  of the engine is not zero.)
\<close>

theorem setRaw_idempotent:
  assumes "float_rounding fl" and "pwmRange_m s \<noteq> 0"
  shows "\<exists>s1 s2. setRaw_rounded fl s raw = Inr s1 \<and> rawInUnitRange s1
            \<and> setRaw_rounded fl s1 (getRaw s1) = Inr s2 \<and> getRaw s2 = getRaw s1
            \<and> duty_rounded fl s1 (R (getRaw s1)) = duty_rounded fl s (R raw)
            \<and> duty_rounded fl s1 (G (getRaw s1)) = duty_rounded fl s (G raw)
            \<and> duty_rounded fl s1 (B (getRaw s1)) = duty_rounded fl s (B raw)"
proof -
  define N where "N = u16_to_real (pwmRange_m s)"
  define pR where "pR = duty_rounded fl s (R raw)"
  define pG where "pG = duty_rounded fl s (G raw)"
  define pB where "pB = duty_rounded fl s (B raw)"
  define s1 where "s1 = s\<lparr>sink := sink s @ (if onOff_m s
                                   then [AnalogWrite (redPin_m s) pR,
                                         AnalogWrite (greenPin_m s) pG,
                                         AnalogWrite (bluePin_m s) pB]
                                   else []),
                  raw_m := \<lparr>R = fl (real_of_int pR / N), G = fl (real_of_int pG / N),
                             B = fl (real_of_int pB / N)\<rparr>,
                  luv_m := \<lparr>L = - 1, u = - 1, v = - 1\<rparr>,
                  T_m := 65535\<rparr>"
  have first: "setRaw_rounded fl s raw = Inr s1"
    using assms(2) by (simp add: setRaw_rounded_result s1_def pR_def pG_def pB_def N_def)
  have rng: "0 \<le> pR" "real_of_int pR \<le> N" "0 \<le> pG" "real_of_int pG \<le> N"
    "0 \<le> pB" "real_of_int pB \<le> N"
    using duty_rounded_range [OF assms(1)] by (simp_all add: pR_def pG_def pB_def N_def)
  have unit: "rawInUnitRange s1"
    using stored_in_unit [OF assms, of pR] stored_in_unit [OF assms, of pG]
      stored_in_unit [OF assms, of pB] rng
    by (simp add: rawInUnitRange_def getRaw_def s1_def N_def)
  have again: "duty_rounded fl s (fl (real_of_int pR / N)) = pR"
    "duty_rounded fl s (fl (real_of_int pG / N)) = pG"
    "duty_rounded fl s (fl (real_of_int pB / N)) = pB"
    using duty_rounded_of_stored [OF assms] rng by (simp_all add: N_def)
  have second: "setRaw_rounded fl s1 (getRaw s1)
      = Inr (s1\<lparr>sink := sink s1 @ (if onOff_m s
                                     then [AnalogWrite (redPin_m s) pR,
                                           AnalogWrite (greenPin_m s) pG,
                                           AnalogWrite (bluePin_m s) pB]
                                     else [])\<rparr>)"
    using assms(2)
    by (simp add: setRaw_rounded_result [of fl s1] getRaw_def)
      (simp add: s1_def again N_def [symmetric])
  have same: "duty_rounded fl s1 (R (getRaw s1)) = pR"
    "duty_rounded fl s1 (G (getRaw s1)) = pG"
    "duty_rounded fl s1 (B (getRaw s1)) = pB"
    by (simp_all add: s1_def getRaw_def again)
  show ?thesis
    using first unit second same
    by (intro exI [of _ s1] exI [of _ "s1\<lparr>sink := sink s1 @ (if onOff_m s
                                     then [AnalogWrite (redPin_m s) pR,
                                           AnalogWrite (greenPin_m s) pG,
                                           AnalogWrite (bluePin_m s) pB]
                                     else [])\<rparr>"])
      (simp add: getRaw_def pR_def pG_def pB_def)
qed

theorem setRaw_idempotent_witness:
  "float_rounding (\<lambda>x. x) \<and> pwmRange_m litEngine \<noteq> 0
    \<and> (\<exists>s1 s2. setRaw litEngine \<lparr>R = 3 / 10, G = 17 / 10, B = - 2\<rparr> = Inr s1
          \<and> rawInUnitRange s1 \<and> setRaw s1 (getRaw s1) = Inr s2 \<and> getRaw s2 = getRaw s1)"
proof -
  have f: "float_rounding (\<lambda>x. x)"
    by (simp add: float_rounding_def)
  have n: "pwmRange_m litEngine \<noteq> 0"
    by (simp add: example_ranges)
  show ?thesis
    using f n setRaw_idempotent [OF f n, of "\<lparr>R = 3 / 10, G = 17 / 10, B = - 2\<rparr>"]
    unfolding setRaw_def by blast
qed







text \<open>
  Claim C10, as stated: \<open>u\<close> and \<open>v\<close> are both a polynomial of degree four in the z-score
  over one of degree two. The numerator of \<open>u\<close> is not of degree four: no polynomial with
  a non-zero coefficient of \<open>x^4\<close> equals it.
\<close>

theorem u_numerator_not_quartic:
  "\<not> (\<exists>a4 a3 a2 a1 a0. a4 \<noteq> 0 \<and> (\<forall>x. u_numerator x = quartic a4 a3 a2 a1 a0 x))"
proof
  assume "\<exists>a4 a3 a2 a1 a0. a4 \<noteq> 0 \<and> (\<forall>x. u_numerator x = quartic a4 a3 a2 a1 a0 x)"
  then obtain a4 a3 a2 a1 a0
    where nz: "a4 \<noteq> 0" and eq: "\<And>x. u_numerator x = quartic a4 a3 a2 a1 a0 x"
    by blast
  have "u_numerator 4 - 4 * u_numerator 3 + 6 * u_numerator 2 - 4 * u_numerator 1
      + u_numerator 0 = 24 * a4"
    unfolding eq by (rule quartic_fourth_difference)
  moreover have "u_numerator 4 - 4 * u_numerator 3 + 6 * u_numerator 2 - 4 * u_numerator 1
      + u_numerator 0 = 0"
    by (simp add: u_numerator_def Let_def)
  ultimately show False
    using nz by simp
qed

text \<open>
  Claim C10, amended: \<open>setColorTemperature\<close> takes \<open>T\<close> to the z-score
  \<open>x = (T - 5500) / 2599\<close> and passes to \<open>setCie1976Ucs\<close> the chromaticity \<open>(u, v)\<close>, where
  \<open>u\<close> is a polynomial of degree three in \<open>x\<close> over one of degree two, and \<open>v\<close> is a
  polynomial of degree four over one of degree two, with the coefficients below; neither
  denominator is ever zero.
\<close>

theorem colour_temperature_polynomials:
  "zscore T = (u16_to_real T - 5500) / 2599
    \<and> u_numerator x = quartic 0 (- 0.0001747) 0.1833 0.872 1.227 x
    \<and> u_denominator x = quartic 0 0 1 4.813 5.933 x
    \<and> v_numerator x = quartic 0.000311 0.0009124 0.3856 1.873 2.619 x
    \<and> v_denominator x = quartic 0 0 1 4.323 5.485 x
    \<and> 0 < u_denominator x \<and> 0 < v_denominator x
    \<and> setColorTemperature s lightness T
        = bind_fault
            (setCie1976Ucs s
              \<lparr>L = (if lightness > 0 then lightness else L (luv_m s)),
               u = u_numerator (zscore T) / u_denominator (zscore T),
               v = v_numerator (zscore T) / v_denominator (zscore T)\<rparr>)
            (\<lambda>s'. Inr (s'\<lparr>T_m := T\<rparr>))"
proof -
  have "zscore T = (u16_to_real T - 5500) / 2599"
    by (simp add: zscore_def)
  moreover have "u_numerator x = quartic 0 (- 0.0001747) 0.1833 0.872 1.227 x"
    by (simp add: u_numerator_def quartic_def Let_def power2_eq_square power3_eq_cube)
  moreover have "u_denominator x = quartic 0 0 1 4.813 5.933 x"
    by (simp add: u_denominator_def quartic_def Let_def power2_eq_square)
  moreover have "v_numerator x = quartic 0.000311 0.0009124 0.3856 1.873 2.619 x"
    by (simp add: v_numerator_def quartic_def Let_def power2_eq_square power3_eq_cube
        power4_eq_xxxx)
  moreover have "v_denominator x = quartic 0 0 1 4.323 5.485 x"
    by (simp add: v_denominator_def quartic_def Let_def power2_eq_square)
  ultimately show ?thesis
    using u_denominator_pos [of x] v_denominator_pos [of x] setColorTemperature_eq [of s lightness T]
    by simp
qed


end
